theory Spec2Isabelle
  imports Complex_Main
begin

section \<open>Strings: the helpers of player.js\<close>

text \<open>
  The functions and fields keep the names of the source, without the trailing
  underscore of its private names (\<open>getExtension_\<close> is \<open>getExtension\<close>).

  JavaScript strings are modelled as \<open>string\<close> (lists of 8-bit characters).
  \<open>toLowerCase\<close> is modelled on the ASCII letters: every literal the player compares an
  extension with (\<open>m3u8\<close>, \<open>mpd\<close>, \<open>mp4\<close>, \<open>ogv\<close>, \<open>webm\<close>) is ASCII.
\<close>

definition lower_char :: "char \<Rightarrow> char" where
  "lower_char c =
     (case map_of (zip ''ABCDEFGHIJKLMNOPQRSTUVWXYZ'' ''abcdefghijklmnopqrstuvwxyz'') c of
        None \<Rightarrow> c
      | Some l \<Rightarrow> l)"

definition toLowerCase :: "string \<Rightarrow> string" where
  "toLowerCase s = map lower_char s"

text \<open>\<open>s.split(sep)\<close> for a one-character separator: never the empty list.\<close>

fun split_str :: "char \<Rightarrow> string \<Rightarrow> string list" where
  "split_str sep [] = [[]]"
| "split_str sep (c # cs) =
     (if c = sep then [] # split_str sep cs
      else (case split_str sep cs of
              [] \<Rightarrow> [[c]]
            | p # ps \<Rightarrow> (c # p) # ps))"

text \<open>\<open>s.indexOf(pat)\<close>: the first index where \<open>pat\<close> occurs in \<open>s\<close>, or \<open>-1\<close>.\<close>

fun startsWith :: "string \<Rightarrow> string \<Rightarrow> bool" where
  "startsWith s [] = True"
| "startsWith [] (p # ps) = False"
| "startsWith (c # cs) (p # ps) = (c = p \<and> startsWith cs ps)"

fun indexOf :: "string \<Rightarrow> string \<Rightarrow> int" where
  "indexOf [] pat = (if pat = [] then 0 else - 1)"
| "indexOf (c # cs) pat =
     (if startsWith (c # cs) pat then 0
      else (let i = indexOf cs pat in if i = - 1 then - 1 else i + 1))"

text \<open>
  \<open>sampleplayer.getExtension_\<close> (player.js, 1176-1183): split at the dots; one part, or
  two parts with an empty first one, give the empty string; otherwise the last part
  (\<open>parts.pop()\<close>) in lower case. The list of parts is never empty, so \<open>parts[0]\<close>
  is its head.
\<close>

definition getExtension :: "string \<Rightarrow> string" where
  "getExtension url =
     (let parts = split_str (CHR ''.'') url in
      if length parts = 1 \<or> (hd parts = [] \<and> length parts = 2) then []
      else toLowerCase (last parts))"

text \<open>
  \<open>sampleplayer.getPath_\<close> (player.js, 1212-1216) asks the browser: it assigns the URL to
  the \<open>href\<close> of an anchor element and reads \<open>pathname\<close> back. The browser's URL
  resolution is not code of the player; it is the parameter \<open>pathname\<close>.
\<close>

definition getPath :: "(string \<Rightarrow> string) \<Rightarrow> string \<Rightarrow> string" where
  "getPath pathname url = (let p = pathname url in if p = [] then [] else p)"


section \<open>The data of the player\<close>

text \<open>\<open>sampleplayer.Type\<close> and \<open>sampleplayer.State\<close> (player.js, 255-275).\<close>

datatype Type = VIDEO | UNKNOWN

datatype State = LAUNCHING | LOADING | BUFFERING | PLAYING | PAUSED | STALLED | DONE | IDLE

text \<open>
  \<open>sampleplayer.IDLE_TIMEOUT\<close> (player.js, 240-247), in milliseconds. The object has no
  key for \<open>BUFFERING\<close> and \<open>PLAYING\<close>: the lookup gives \<open>undefined\<close>, here \<open>None\<close>.
\<close>

fun IDLE_TIMEOUT :: "State \<Rightarrow> nat option" where
  "IDLE_TIMEOUT LAUNCHING = Some (1000 * 60 * 5)"
| "IDLE_TIMEOUT LOADING = Some (1000 * 60 * 5)"
| "IDLE_TIMEOUT PAUSED = Some (1000 * 60 * 20)"
| "IDLE_TIMEOUT STALLED = Some (30 * 1000)"
| "IDLE_TIMEOUT DONE = Some (1000 * 60 * 5)"
| "IDLE_TIMEOUT IDLE = Some (1000 * 60 * 5)"
| "IDLE_TIMEOUT BUFFERING = None"
| "IDLE_TIMEOUT PLAYING = None"

definition PUMP_POLLING_INTERVAL :: nat where
  "PUMP_POLLING_INTERVAL = 200"

definition INITIAL_PUMP_DURATION :: real where
  "INITIAL_PUMP_DURATION = 5.0"

definition MEDIA_INFO_DURATION :: nat where
  "MEDIA_INFO_DURATION = 2 * 1000"

text \<open>
  The numbers the media element reports. A duration is \<open>NaN\<close> before the metadata is
  known and \<open>Infinity\<close> for an unbounded stream; the finite values are modelled as
  reals (the rounding of floating-point subtraction is not modelled).
\<close>

datatype jsnum = NaN | Num real | Infinity

fun isNaN :: "jsnum \<Rightarrow> bool" where
  "isNaN NaN = True"
| "isNaN (Num x) = False"
| "isNaN Infinity = False"

text \<open>\<open>a > b\<close> for a number \<open>a\<close> and a finite \<open>b\<close>: false when \<open>a\<close> is \<open>NaN\<close>.\<close>

fun js_gt :: "jsnum \<Rightarrow> real \<Rightarrow> bool" where
  "js_gt NaN b = False"
| "js_gt (Num a) b = (a > b)"
| "js_gt Infinity b = True"

text \<open>\<open>a === b\<close> for a finite \<open>a\<close> and a number \<open>b\<close>.\<close>

fun js_eq :: "real \<Rightarrow> jsnum \<Rightarrow> bool" where
  "js_eq a NaN = False"
| "js_eq a (Num b) = (a = b)"
| "js_eq a Infinity = False"

text \<open>The properties of the \<open>video\<close> element that the player reads or writes.\<close>

record MediaElement =
  currentTime :: real
  duration :: jsnum
  buffered :: "(real \<times> real) list"
  readyState :: nat
  autoplay :: bool

text \<open>
  The load request (\<open>cast.receiver.MediaManager.LoadInfo\<close>), with the fields the player
  reads. A field that may be absent is an option; \<open>images\<close> holds the \<open>url\<close> of each
  image.
\<close>

record Metadata =
  title :: "string option"
  subtitle :: "string option"
  images :: "string option list"

datatype StreamType = BUFFERED | LIVE | NONE

record MediaInformation =
  contentId :: "string option"
  contentType :: "string option"
  streamType :: "StreamType option"
  metadata :: "Metadata option"

record LoadInfo =
  media :: "MediaInformation option"
  requestAutoplay :: "bool option"
  senderId :: string

datatype StopEvent = StopEvent string

text \<open>
  What \<open>onError_\<close> is called with: the event of the media element, the event that
  \<open>host.onError\<close> dispatches itself, or the error object of the media manager.
\<close>

datatype ErrorPayload = ElementErrorEvent | DispatchedErrorEvent | ManagerError nat

text \<open>
  The three protocol constructors of the Media Player Library
  (\<open>cast.player.api.Create...StreamingProtocol\<close>); \<open>protocolFunc\<close> stays \<open>null\<close>
  (\<open>None\<close>) when the media element plays the content itself.
\<close>

datatype ProtocolFunc =
  CreateHlsStreamingProtocol | CreateDashStreamingProtocol | CreateSmoothStreamingProtocol

text \<open>The kinds of the specification, and the kind that a \<open>protocolFunc\<close> stands for.\<close>

datatype ProtocolKind = HLS | DASH | SmoothStreaming | Native

fun kind_of :: "ProtocolFunc option \<Rightarrow> ProtocolKind" where
  "kind_of (Some CreateHlsStreamingProtocol) = HLS"
| "kind_of (Some CreateDashStreamingProtocol) = DASH"
| "kind_of (Some CreateSmoothStreamingProtocol) = SmoothStreaming"
| "kind_of None = Native"

text \<open>
  \<open>this.player_\<close>: the \<open>cast.player.api.Player\<close> with its host and protocol, and the
  \<open>underflow\<close> entry of its \<open>getState()\<close>.
\<close>

record Player =
  protocol :: ProtocolFunc
  hostUrl :: string
  underflow :: bool

text \<open>The calls that leave the player, in the order they are made.\<close>

datatype Effect =
    SetApplicationState string
  | ReceiverStop
  | BroadcastStatus bool
  | OnLoadOrig LoadInfo
  | OnStopOrig StopEvent
  | OnErrorOrig ErrorPayload
  | OnLoadMetadataErrorOrig LoadInfo
  | MediaPlay
  | MediaPause
  | PlayerLoad ProtocolFunc string
  | PlayerUnload

text \<open>
  The closures the player hands to \<open>sampleplayer.transition_\<close>, to \<open>setTimeout\<close> and
  to the \<open>webkitTransitionEnd\<close> listeners of \<open>fadeTo_\<close>, each with what it captures.
\<close>

datatype Something =
    SmSetState State
  | SmError ErrorPayload
  | SmLoadMetadataError LoadInfo
  | SmStop StopEvent
  | SmLoading MediaInformation

datatype Callback =
    CbIdleStop
  | CbSetState State bool
  | CbMediaInfo jsnum
  | CbAutoPlay
  | CbRemoveSeeking

datatype FadeListener = FadeOut Something | FadeIn

datatype DisconnectReason = REQUESTED_BY_SENDER | ERROR | UNKNOWN_REASON

text \<open>
  The player object with the part of the browser it lives in: its own fields (named as
  in the source, without the trailing underscore), the pending timers (identifier, delay
  in ms, callback), the registered \<open>webkitTransitionEnd\<close> listeners, the images that
  \<open>preload_\<close> waits for, the number of \<open>stalled\<close> and \<open>waiting\<close> listeners that
  \<open>loadVideo_\<close> has added, what the media manager and the receiver manager answer, and
  the log of outgoing calls.
\<close>

record CastPlayer =
  type :: Type
  live :: bool
  state :: State
  idleTimerId :: "nat option"
  delay :: "nat option"
  playerAutoPlay :: bool
  playerAutoPlayTimerId :: "nat option"
  seekingTimeoutId :: "nat option"
  player :: "Player option"
  applicationState :: "string option"
  hasMediaManager :: bool
  mediaElement :: MediaElement
  mediaInformation :: "MediaInformation option"
  senders :: nat
  stalledListeners :: nat
  waitingListeners :: nat
  timers :: "(nat \<times> nat \<times> Callback) list"
  nextTimerId :: nat
  fadeListeners :: "FadeListener list"
  imagesLoading :: "MediaInformation list"
  effects :: "Effect list"

section \<open>Timers, effects and transitions\<close>

text \<open>
  \<open>setTimeout\<close> returns a fresh positive identifier; \<open>clearTimeout\<close> removes the timer
  with the given identifier, if it is pending, and ignores \<open>undefined\<close> and \<open>null\<close>.
\<close>

definition setTimeout :: "Callback \<Rightarrow> nat \<Rightarrow> CastPlayer \<Rightarrow> nat \<times> CastPlayer" where
  "setTimeout cb t s =
     (let i = nextTimerId s in
      (i, s\<lparr>timers := timers s @ [(i, t, cb)], nextTimerId := i + 1\<rparr>))"

definition clearTimeout :: "nat option \<Rightarrow> CastPlayer \<Rightarrow> CastPlayer" where
  "clearTimeout tid s =
     (case tid of
        None \<Rightarrow> s
      | Some i \<Rightarrow> s\<lparr>timers := filter (\<lambda>(j, t, cb). j \<noteq> i) (timers s)\<rparr>)"

definition emit :: "Effect \<Rightarrow> CastPlayer \<Rightarrow> CastPlayer" where
  "emit e s = s\<lparr>effects := effects s @ [e]\<rparr>"

text \<open>
  \<open>sampleplayer.transition_\<close> (player.js, 1077-1082) fades out through \<open>fadeTo_\<close>
  (1155-1166), which registers a \<open>webkitTransitionEnd\<close> listener; the listener runs
  \<open>something\<close> and then fades in, which registers a listener without a continuation.
  The style changes are presentation and are left out.
\<close>

definition fadeTo :: "FadeListener \<Rightarrow> CastPlayer \<Rightarrow> CastPlayer" where
  "fadeTo l s = s\<lparr>fadeListeners := fadeListeners s @ [l]\<rparr>"

definition transition :: "Something \<Rightarrow> CastPlayer \<Rightarrow> CastPlayer" where
  "transition something s = fadeTo (FadeOut something) s"

section \<open>The state of the player\<close>

text \<open>\<open>sampleplayer.getApplicationState_\<close> (player.js, 1194-1202).\<close>

definition getApplicationState :: "MediaInformation option \<Rightarrow> string" where
  "getApplicationState opt_media =
     (case opt_media of
        None \<Rightarrow> ''Ready To Cast''
      | Some m \<Rightarrow>
          (case metadata m of
             None \<Rightarrow> ''Now Casting''
           | Some md \<Rightarrow>
               (case title md of
                  None \<Rightarrow> ''Now Casting''
                | Some t \<Rightarrow> if t \<noteq> [] then ''Now Casting: '' @ t else ''Now Casting'')))"

text \<open>\<open>updateApplicationState_\<close> (player.js, 593-604).\<close>

definition updateApplicationState :: "CastPlayer \<Rightarrow> CastPlayer" where
  "updateApplicationState s =
     (if hasMediaManager s then
        (let idle = (state s = IDLE);
             m = (if idle then None else mediaInformation s);
             appState = getApplicationState m
         in if applicationState s \<noteq> Some appState
            then emit (SetApplicationState appState) (s\<lparr>applicationState := Some appState\<rparr>)
            else s)
      else s)"

text \<open>\<open>setIdleTimeout_\<close> (player.js, 528-537); \<open>if (t)\<close> fails for \<open>undefined\<close> and 0.\<close>

definition setIdleTimeout :: "nat option \<Rightarrow> CastPlayer \<Rightarrow> CastPlayer" where
  "setIdleTimeout t s =
     (let s1 = clearTimeout (idleTimerId s) s in
      case t of
        None \<Rightarrow> s1
      | Some d \<Rightarrow>
          if d = 0 then s1
          else (let (i, s2) = setTimeout CbIdleStop d s1 in s2\<lparr>idleTimerId := Some i\<rparr>))"

text \<open>\<open>setType_\<close> (player.js, 547-552).\<close>

definition setType :: "Type \<Rightarrow> bool \<Rightarrow> CastPlayer \<Rightarrow> CastPlayer" where
  "setType ty isLiveStream s = s\<lparr>type := ty, live := isLiveStream\<rparr>"

text \<open>
  \<open>setState_\<close> (player.js, 563-585): with a delay, a timer that calls \<open>setState_\<close> again
  without it; with a crossfade, a transition that calls it again without the crossfade;
  otherwise the state is set, the application state updated and the idle timer armed.
\<close>

definition setState :: "State \<Rightarrow> bool \<Rightarrow> nat option \<Rightarrow> CastPlayer \<Rightarrow> CastPlayer" where
  "setState st opt_crossfade opt_delay s =
     (let s1 = clearTimeout (delay s) s in
      if opt_delay \<noteq> None \<and> opt_delay \<noteq> Some 0 then
        (let (i, s2) = setTimeout (CbSetState st opt_crossfade) (the opt_delay) s1
         in s2\<lparr>delay := Some i\<rparr>)
      else if \<not> opt_crossfade then
        setIdleTimeout (IDLE_TIMEOUT st) (updateApplicationState (s1\<lparr>state := st\<rparr>))
      else transition (SmSetState st) s1)"

section \<open>Classification and protocol selection\<close>

text \<open>\<open>x || ''\<close> for an optional string.\<close>

definition or_empty :: "string option \<Rightarrow> string" where
  "or_empty x = (case x of None \<Rightarrow> [] | Some v \<Rightarrow> v)"

text \<open>\<open>info.message.media || {}\<close>: the object without any field.\<close>

definition no_media :: MediaInformation where
  "no_media = \<lparr>contentId = None, contentType = None, streamType = None, metadata = None\<rparr>"

text \<open>\<open>sampleplayer.getType_\<close> (player.js, 997-1025), branch by branch.\<close>

definition getType :: "(string \<Rightarrow> string) \<Rightarrow> MediaInformation \<Rightarrow> Type" where
  "getType pathname m =
     (let cid = or_empty (contentId m);
          ctype = or_empty (contentType m);
          contentUrlPath = getPath pathname cid
      in if indexOf ctype ''video/'' = 0 then VIDEO
         else if indexOf ctype ''application/x-mpegurl'' = 0 then VIDEO
         else if indexOf ctype ''application/vnd.apple.mpegurl'' = 0 then VIDEO
         else if indexOf ctype ''application/dash+xml'' = 0 then VIDEO
         else if indexOf ctype ''application/vnd.ms-sstr+xml'' = 0 then VIDEO
         else if getExtension contentUrlPath = ''m3u8'' then VIDEO
         else if getExtension contentUrlPath = ''mp4'' then VIDEO
         else if getExtension contentUrlPath = ''ogv'' then VIDEO
         else if getExtension contentUrlPath = ''webm'' then VIDEO
         else if getExtension contentUrlPath = ''m3u8'' then VIDEO
         else if getExtension contentUrlPath = ''mpd'' then VIDEO
         else UNKNOWN)"

text \<open>
  The choice of \<open>protocolFunc\<close> in \<open>loadVideo_\<close> (player.js, 470-480), from the path of
  the URL and the content type.
\<close>

definition protocolFunc_of :: "string \<Rightarrow> string \<Rightarrow> ProtocolFunc option" where
  "protocolFunc_of path ctype =
     (if getExtension path = ''m3u8'' \<or> ctype = ''application/x-mpegurl'' \<or>
         ctype = ''application/vnd.apple.mpegurl''
      then Some CreateHlsStreamingProtocol
      else if getExtension path = ''mpd'' \<or> ctype = ''application/dash+xml''
      then Some CreateDashStreamingProtocol
      else if indexOf path ''.ism'' > - 1 \<or> ctype = ''application/vnd.ms-sstr+xml''
      then Some CreateSmoothStreamingProtocol
      else None)"

text \<open>
  \<open>loadVideo_\<close> (player.js, 462-519). Without a protocol the player adds a \<open>stalled\<close>
  and a \<open>waiting\<close> listener and hands the request to the original \<open>onLoad\<close>. With one
  it creates the host and the player and loads the protocol; the two
  \<open>removeEventListener\<close> calls name \<open>this.onBuffering_\<close>, which was never registered
  (the registered listeners are fresh \<open>bind\<close> results), so they remove nothing.
\<close>

definition loadVideo :: "(string \<Rightarrow> string) \<Rightarrow> LoadInfo \<Rightarrow> CastPlayer \<Rightarrow> CastPlayer" where
  "loadVideo pathname info s =
     (let m = (case media info of None \<Rightarrow> no_media | Some x \<Rightarrow> x);
          url = or_empty (contentId m);
          ctype = or_empty (contentType m);
          path = getPath pathname url
      in case protocolFunc_of path ctype of
           None \<Rightarrow>
             emit (OnLoadOrig info)
               (s\<lparr>stalledListeners := stalledListeners s + 1,
                  waitingListeners := waitingListeners s + 1\<rparr>)
         | Some protocolFunc \<Rightarrow>
             emit (PlayerLoad protocolFunc url)
               (s\<lparr>mediaElement := (mediaElement s)\<lparr>autoplay := False\<rparr>,
                  playerAutoPlay :=
                    (case requestAutoplay info of None \<Rightarrow> True | Some b \<Rightarrow> b),
                  player := Some \<lparr>protocol = protocolFunc, hostUrl = url, underflow = False\<rparr>\<rparr>))"

section \<open>Auto-play\<close>

text \<open>
  \<open>getBufferedDuration_\<close> (player.js, 883-896): the first range that holds the current
  time gives its end minus the current time; no such range gives 0.
\<close>

fun bufferedDurationFrom :: "(real \<times> real) list \<Rightarrow> real \<Rightarrow> real" where
  "bufferedDurationFrom [] cur = 0"
| "bufferedDurationFrom ((st, en) # rs) cur =
     (if st \<le> cur \<and> en > cur then en - cur else bufferedDurationFrom rs cur)"

definition getBufferedDuration :: "CastPlayer \<Rightarrow> real" where
  "getBufferedDuration s =
     bufferedDurationFrom (buffered (mediaElement s)) (currentTime (mediaElement s))"

text \<open>\<open>doPlayerAutoPlay_\<close> (player.js, 904-920).\<close>

definition doPlayerAutoPlay :: "CastPlayer \<Rightarrow> CastPlayer" where
  "doPlayerAutoPlay s =
     (let bufferedDuration = getBufferedDuration s;
          hasEnoughDataPumped = (bufferedDuration \<ge> INITIAL_PUMP_DURATION)
      in if hasEnoughDataPumped then (emit MediaPlay s)\<lparr>playerAutoPlayTimerId := None\<rparr>
         else (let (i, s1) = setTimeout CbAutoPlay PUMP_POLLING_INTERVAL s
               in s1\<lparr>playerAutoPlayTimerId := Some i\<rparr>))"

text \<open>\<open>cancelPlayerAutoPlay_\<close> (player.js, 928-935); the test fails for \<open>null\<close> and 0.\<close>

definition cancelPlayerAutoPlay :: "CastPlayer \<Rightarrow> CastPlayer" where
  "cancelPlayerAutoPlay s =
     (if playerAutoPlayTimerId s \<noteq> None \<and> playerAutoPlayTimerId s \<noteq> Some 0
      then (clearTimeout (playerAutoPlayTimerId s) s)\<lparr>playerAutoPlayTimerId := None\<rparr>
      else s)"

text \<open>
  \<open>onLoadSuccess_\<close> (player.js, 944-971). The labels and the progress bar are
  presentation and are left out. The timer's closure captures \<open>totalTime\<close>, and its
  identifier is not kept.
\<close>

definition onLoadSuccess :: "CastPlayer \<Rightarrow> CastPlayer" where
  "onLoadSuccess s =
     (let totalTime = duration (mediaElement s) in
      if player s \<noteq> None \<and> playerAutoPlay s
      then snd (setTimeout (CbMediaInfo totalTime) MEDIA_INFO_DURATION s)
      else s)"

text \<open>The body of that closure (player.js, 962-969).\<close>

definition mediaInfoElapsed :: "jsnum \<Rightarrow> CastPlayer \<Rightarrow> CastPlayer" where
  "mediaInfoElapsed totalTime s =
     (if \<not> isNaN totalTime \<and> js_gt totalTime INITIAL_PUMP_DURATION
      then doPlayerAutoPlay s
      else emit MediaPlay s)"

section \<open>The handlers\<close>

text \<open>\<open>onReady_\<close> (player.js, 613-616).\<close>

definition onReady :: "CastPlayer \<Rightarrow> CastPlayer" where
  "onReady s = setState IDLE False None s"

text \<open>\<open>onSenderDisconnected_\<close> (player.js, 625-634).\<close>

definition onSenderDisconnected :: "DisconnectReason \<Rightarrow> CastPlayer \<Rightarrow> CastPlayer" where
  "onSenderDisconnected reason s =
     (if senders s = 0 \<and> reason = REQUESTED_BY_SENDER then emit ReceiverStop s else s)"

text \<open>\<open>onError_\<close> (player.js, 645-653) and \<open>onLoadMetadataError_\<close> (866-874).\<close>

definition onError :: "ErrorPayload \<Rightarrow> CastPlayer \<Rightarrow> CastPlayer" where
  "onError error s = transition (SmError error) s"

definition onLoadMetadataError :: "LoadInfo \<Rightarrow> CastPlayer \<Rightarrow> CastPlayer" where
  "onLoadMetadataError event s = transition (SmLoadMetadataError event) s"

text \<open>
  \<open>host.onError\<close> (player.js, 498-505): every host's closure reads \<open>self.player_\<close>;
  \<open>dispatchEvent\<close> runs the \<open>error\<close> listener \<open>onError_\<close> before it returns.
\<close>

definition hostOnError :: "CastPlayer \<Rightarrow> CastPlayer" where
  "hostOnError s =
     (case player s of
        None \<Rightarrow> s
      | Some p \<Rightarrow> onError DispatchedErrorEvent ((emit PlayerUnload s)\<lparr>player := None\<rparr>))"

text \<open>\<open>onBuffering_\<close> (player.js, 662-668); \<open>HAVE_ENOUGH_DATA\<close> is 4.\<close>

definition onBuffering :: "CastPlayer \<Rightarrow> CastPlayer" where
  "onBuffering s =
     (if state s = PLAYING \<and> readyState (mediaElement s) < 4
      then setState BUFFERING False None s
      else s)"

text \<open>\<open>onPlaying_\<close> (player.js, 677-682).\<close>

definition onPlaying :: "CastPlayer \<Rightarrow> CastPlayer" where
  "onPlaying s =
     (let s1 = cancelPlayerAutoPlay s;
          isLoading = (state s1 = LOADING)
      in setState PLAYING isLoading None s1)"

text \<open>
  \<open>onPause_\<close> (player.js, 692-706); \<open>updateProgress_\<close> (783-794) writes labels and
  the progress bar only and is left out, here and in \<open>onProgress_\<close>.
\<close>

definition onPause :: "CastPlayer \<Rightarrow> CastPlayer" where
  "onPause s0 =
     (let s = cancelPlayerAutoPlay s0;
          isIdle = (state s = IDLE);
          isDone = js_eq (currentTime (mediaElement s)) (duration (mediaElement s));
          isUnderflow = (case player s of None \<Rightarrow> False | Some p \<Rightarrow> underflow p)
      in if isUnderflow then emit (BroadcastStatus False) (setState BUFFERING False None s)
         else if \<not> isIdle \<and> \<not> isDone then setState PAUSED False None s
         else s)"

text \<open>\<open>onStop_\<close> (player.js, 739-748) and \<open>onEnded_\<close> (756-759).\<close>

definition onStop :: "StopEvent \<Rightarrow> CastPlayer \<Rightarrow> CastPlayer" where
  "onStop event s = transition (SmStop event) (cancelPlayerAutoPlay s)"

definition onEnded :: "CastPlayer \<Rightarrow> CastPlayer" where
  "onEnded s = setState DONE True None s"

text \<open>\<open>onProgress_\<close> (player.js, 768-775).\<close>

definition onProgress :: "CastPlayer \<Rightarrow> CastPlayer" where
  "onProgress s =
     (if state s = BUFFERING \<or> state s = LOADING
      then setState PLAYING False None s
      else s)"

text \<open>\<open>onSeekStart_\<close> and \<open>onSeekEnd_\<close> (player.js, 802-819).\<close>

definition onSeekStart :: "CastPlayer \<Rightarrow> CastPlayer" where
  "onSeekStart s = clearTimeout (seekingTimeoutId s) s"

definition onSeekEnd :: "CastPlayer \<Rightarrow> CastPlayer" where
  "onSeekEnd s =
     (let s1 = clearTimeout (seekingTimeoutId s) s;
          (i, s2) = setTimeout CbRemoveSeeking 3000 s1
      in s2\<lparr>seekingTimeoutId := Some i\<rparr>)"

text \<open>\<open>onVisibilityChanged_\<close> (player.js, 832-838).\<close>

definition onVisibilityChanged :: "bool \<Rightarrow> CastPlayer \<Rightarrow> CastPlayer" where
  "onVisibilityChanged isVisible s =
     (if \<not> isVisible then emit (BroadcastStatus False) (emit MediaPause s) else s)"

section \<open>Loading\<close>

text \<open>\<open>resetMediaElement_\<close> (player.js, 426-432).\<close>

definition resetMediaElement :: "CastPlayer \<Rightarrow> CastPlayer" where
  "resetMediaElement s =
     (case player s of
        None \<Rightarrow> s
      | Some p \<Rightarrow> (emit PlayerUnload s)\<lparr>player := None\<rparr>)"

text \<open>\<open>sampleplayer.getMediaImageUrl_\<close> (player.js, 981-985).\<close>

definition getMediaImageUrl :: "MediaInformation \<Rightarrow> string option" where
  "getMediaImageUrl m =
     (case metadata m of
        None \<Rightarrow> None
      | Some md \<Rightarrow> (case images md of [] \<Rightarrow> None | u # us \<Rightarrow> u))"

text \<open>
  \<open>sampleplayer.preload_\<close> (player.js, 1092-1116) with the \<open>doneFunc\<close> that \<open>load\<close>
  passes: without a thumbnail \<open>doneFunc\<close> runs at once, with one it waits for the
  \<open>onload\<close> of the image. \<open>doneFunc\<close> starts a transition whose action sets the state
  \<open>LOADING\<close> and renders the metadata.
\<close>

definition doneFunc :: "MediaInformation \<Rightarrow> CastPlayer \<Rightarrow> CastPlayer" where
  "doneFunc m s = transition (SmLoading m) s"

definition preload :: "MediaInformation \<Rightarrow> CastPlayer \<Rightarrow> CastPlayer" where
  "preload m s =
     (let thumbnailUrl = getMediaImageUrl m in
      if thumbnailUrl \<noteq> None \<and> thumbnailUrl \<noteq> Some []
      then s\<lparr>imagesLoading := imagesLoading s @ [m]\<rparr>
      else doneFunc m s)"

text \<open>
  \<open>load\<close> (player.js, 382-418). \<open>!media.contentId\<close> holds for an absent and for an empty
  content id. The \<open>switch\<close> has the one case \<open>VIDEO\<close>.
\<close>

definition load :: "(string \<Rightarrow> string) \<Rightarrow> LoadInfo \<Rightarrow> CastPlayer \<Rightarrow> CastPlayer" where
  "load pathname info s0 =
     (let s = clearTimeout (idleTimerId s0) s0;
          m = (case media info of None \<Rightarrow> no_media | Some x \<Rightarrow> x);
          playerType = getType pathname m;
          isLiveStream = (streamType m = Some LIVE)
      in if contentId m = None \<or> contentId m = Some [] then onLoadMetadataError info s
         else if playerType = UNKNOWN then onLoadMetadataError info s
         else
           (let s1 = resetMediaElement s;
                s2 = setType playerType isLiveStream s1;
                s3 = (case playerType of VIDEO \<Rightarrow> loadVideo pathname info s2 | UNKNOWN \<Rightarrow> s2)
            in preload m s3))"

text \<open>\<open>onLoad_\<close> (player.js, 848-854).\<close>

definition onLoad :: "(string \<Rightarrow> string) \<Rightarrow> LoadInfo \<Rightarrow> CastPlayer \<Rightarrow> CastPlayer" where
  "onLoad pathname event s = load pathname event (cancelPlayerAutoPlay s)"

section \<open>Deferred work\<close>

text \<open>The actions of the transitions (the \<open>something\<close> of \<open>transition_\<close>).\<close>

fun run_something :: "Something \<Rightarrow> CastPlayer \<Rightarrow> CastPlayer" where
  "run_something (SmSetState st) s = setState st False None s"
| "run_something (SmError error) s = emit (OnErrorOrig error) (setState IDLE True None s)"
| "run_something (SmLoadMetadataError event) s =
     emit (OnLoadMetadataErrorOrig event) (setState IDLE True None s)"
| "run_something (SmStop event) s = emit (OnStopOrig event) (setState IDLE False None s)"
| "run_something (SmLoading m) s = setState LOADING False None s"

text \<open>
  A \<open>webkitTransitionEnd\<close> listener of \<open>fadeTo_\<close>: it removes itself and calls its
  \<open>opt_doneFunc\<close>; the one of a fade-out runs the action and starts the fade-in.
\<close>

fun run_listener :: "FadeListener \<Rightarrow> CastPlayer \<Rightarrow> CastPlayer" where
  "run_listener (FadeOut something) s = fadeTo FadeIn (run_something something s)"
| "run_listener FadeIn s = s"

text \<open>
  The event \<open>webkitTransitionEnd\<close> on the player's element: the listeners registered
  when it is dispatched run in the order of their registration; those added meanwhile
  wait for the next event.
\<close>

definition transitionEnd :: "CastPlayer \<Rightarrow> CastPlayer" where
  "transitionEnd s = fold run_listener (fadeListeners s) (s\<lparr>fadeListeners := []\<rparr>)"

text \<open>The callbacks of the timers.\<close>

fun run_callback :: "Callback \<Rightarrow> CastPlayer \<Rightarrow> CastPlayer" where
  "run_callback CbIdleStop s = emit ReceiverStop s"
| "run_callback (CbSetState st crossfade) s = setState st crossfade None s"
| "run_callback (CbMediaInfo totalTime) s = mediaInfoElapsed totalTime s"
| "run_callback CbAutoPlay s = doPlayerAutoPlay s"
| "run_callback CbRemoveSeeking s = s"

text \<open>A pending timer fires: it leaves the table and its callback runs.\<close>

definition fireTimer :: "nat \<Rightarrow> CastPlayer \<Rightarrow> CastPlayer" where
  "fireTimer i s =
     (case find (\<lambda>(j, t, cb). j = i) (timers s) of
        None \<Rightarrow> s
      | Some (j, t, cb) \<Rightarrow> run_callback cb (clearTimeout (Some i) s))"

text \<open>The image that the \<open>k\<close>-th pending preload waits for has loaded.\<close>

definition imageLoaded :: "nat \<Rightarrow> CastPlayer \<Rightarrow> CastPlayer" where
  "imageLoaded k s =
     (if k < length (imagesLoading s)
      then doneFunc (imagesLoading s ! k)
             (s\<lparr>imagesLoading := take k (imagesLoading s) @ drop (Suc k) (imagesLoading s)\<rparr>)
      else s)"

section \<open>The constructor and the events\<close>

text \<open>
  \<open>sampleplayer.CastPlayer\<close> (player.js, 75-234). \<open>setState_\<close> runs before
  \<open>this.mediaManager_\<close> exists, so the first application state is sent by the
  constructor itself and \<open>applicationState_\<close> stays \<open>undefined\<close>.
\<close>

definition blank :: CastPlayer where
  "blank =
     \<lparr>type = UNKNOWN, live = False, state = LAUNCHING, idleTimerId = None, delay = None,
      playerAutoPlay = False, playerAutoPlayTimerId = None, seekingTimeoutId = None,
      player = None, applicationState = None, hasMediaManager = False,
      mediaElement =
        \<lparr>currentTime = 0, duration = NaN, buffered = [], readyState = 0, autoplay = False\<rparr>,
      mediaInformation = None, senders = 0, stalledListeners = 0, waitingListeners = 0,
      timers = [], nextTimerId = 1, fadeListeners = [], imagesLoading = [], effects = []\<rparr>"

definition newCastPlayer :: CastPlayer where
  "newCastPlayer =
     (let s1 = setType UNKNOWN False blank;
          s2 = setState LAUNCHING False None s1;
          s3 = s2\<lparr>playerAutoPlay := False, playerAutoPlayTimerId := None\<rparr>;
          s4 = emit (SetApplicationState (getApplicationState None)) s3
      in s4\<lparr>hasMediaManager := True\<rparr>)"

text \<open>
  What can happen to a constructed player: the callbacks of the receiver manager and
  the media manager, the events of the media element, an error of the host, a timer,
  the end of a fade, a loaded image, and the changes of what the browser and the
  libraries report (the media element's properties, the backend's underflow flag, the
  media information, the number of senders).
\<close>

datatype Event =
    Ready
  | SenderDisconnected DisconnectReason
  | VisibilityChanged bool
  | Load LoadInfo
  | Stop StopEvent
  | Error ErrorPayload
  | LoadMetadataError LoadInfo
  | HostError
  | Playing
  | Pause
  | Ended
  | TimeUpdate
  | Seeking
  | Seeked
  | LoadedMetadata
  | Stalled
  | Waiting
  | Timer nat
  | TransitionEnd
  | ImageLoaded nat
  | MediaElementChanged real jsnum "(real \<times> real) list" nat
  | UnderflowChanged bool
  | MediaInformationChanged "MediaInformation option"
  | SendersChanged nat

fun step :: "(string \<Rightarrow> string) \<Rightarrow> Event \<Rightarrow> CastPlayer \<Rightarrow> CastPlayer" where
  "step pathname Ready s = onReady s"
| "step pathname (SenderDisconnected reason) s = onSenderDisconnected reason s"
| "step pathname (VisibilityChanged isVisible) s = onVisibilityChanged isVisible s"
| "step pathname (Load info) s = onLoad pathname info s"
| "step pathname (Stop event) s = onStop event s"
| "step pathname (Error error) s = onError error s"
| "step pathname (LoadMetadataError info) s = onLoadMetadataError info s"
| "step pathname HostError s = hostOnError s"
| "step pathname Playing s = onPlaying s"
| "step pathname Pause s = onPause s"
| "step pathname Ended s = onEnded s"
| "step pathname TimeUpdate s = onProgress s"
| "step pathname Seeking s = onSeekStart s"
| "step pathname Seeked s = onSeekEnd s"
| "step pathname LoadedMetadata s = onLoadSuccess s"
| "step pathname Stalled s = (onBuffering ^^ stalledListeners s) s"
| "step pathname Waiting s = (onBuffering ^^ waitingListeners s) s"
| "step pathname (Timer i) s = fireTimer i s"
| "step pathname TransitionEnd s = transitionEnd s"
| "step pathname (ImageLoaded k) s = imageLoaded k s"
| "step pathname (MediaElementChanged t d b r) s =
     s\<lparr>mediaElement := (mediaElement s)\<lparr>currentTime := t, duration := d, buffered := b,
                                          readyState := r\<rparr>\<rparr>"
| "step pathname (UnderflowChanged u) s =
     s\<lparr>player := map_option (\<lambda>p. p\<lparr>underflow := u\<rparr>) (player s)\<rparr>"
| "step pathname (MediaInformationChanged m) s = s\<lparr>mediaInformation := m\<rparr>"
| "step pathname (SendersChanged n) s = s\<lparr>senders := n\<rparr>"

definition run :: "(string \<Rightarrow> string) \<Rightarrow> Event list \<Rightarrow> CastPlayer \<Rightarrow> CastPlayer" where
  "run pathname evs s = fold (step pathname) evs s"

section \<open>Words of the specification and sample inputs\<close>

text \<open>"The path contains the text": some text before it and some after it.\<close>

definition contains :: "string \<Rightarrow> string \<Rightarrow> bool" where
  "contains s pat = (\<exists>pre post. s = pre @ pat @ post)"

text \<open>A request whose content type extends the HLS type by a parameter.\<close>

definition hls_charset_request :: LoadInfo where
  "hls_charset_request =
     \<lparr>media = Some \<lparr>contentId = Some ''/live/stream'',
                     contentType = Some ''application/x-mpegurl;charset=UTF-8'',
                     streamType = None, metadata = None\<rparr>,
      requestAutoplay = None, senderId = ''sender-1''\<rparr>"

text \<open>
  A request for an HLS stream without an autoplay field, and the events that bring a
  new player to \<open>PLAYING\<close> with it.
\<close>

definition hls_request :: LoadInfo where
  "hls_request =
     \<lparr>media = Some \<lparr>contentId = Some ''/video.m3u8'', contentType = None,
                     streamType = None, metadata = None\<rparr>,
      requestAutoplay = None, senderId = ''sender-1''\<rparr>"

definition playing_events :: "Event list" where
  "playing_events =
     [Ready, Load hls_request, TransitionEnd, MediaElementChanged 0 (Num 60) [] 0,
      LoadedMetadata, MediaElementChanged 0 (Num 60) [(0, 6)] 4, Timer 4, Playing,
      TransitionEnd]"


text \<open>Every pending timer has an identifier that \<open>setTimeout\<close> has already given out.\<close>

definition timers_fresh :: "CastPlayer \<Rightarrow> bool" where
  "timers_fresh s = list_all (\<lambda>(j, t, cb). j < nextTimerId s) (timers s)"


text \<open>
  The events that bring a new player to \<open>LOADING\<close> with the HLS request, the element
  reporting a duration of 60 seconds and nothing buffered.
\<close>

definition loading_events :: "Event list" where
  "loading_events =
     [Ready, Load hls_request, TransitionEnd, MediaElementChanged 0 (Num 60) [] 0]"

text \<open>The call that creates a playback session: the player loads a protocol.\<close>

definition creates_session :: "Effect \<Rightarrow> bool" where
  "creates_session e = (case e of PlayerLoad f u \<Rightarrow> True | _ \<Rightarrow> False)"

text \<open>A request with an empty content id.\<close>

definition empty_request :: LoadInfo where
  "empty_request =
     \<lparr>media = Some \<lparr>contentId = Some [], contentType = Some ''video/mp4'',
                     streamType = None, metadata = None\<rparr>,
      requestAutoplay = None, senderId = ''sender-1''\<rparr>"



text \<open>
  A stop arrives during the display delay and its fade ends; then the delay passes,
  six seconds are buffered, and the poll timer fires.
\<close>

definition stopped_events :: "Event list" where
  "stopped_events =
     loading_events @ [LoadedMetadata, Stop (StopEvent ''sender-1''), TransitionEnd]"

definition stopped_probe_events :: "Event list" where
  "stopped_probe_events =
     stopped_events @ [Timer 4, MediaElementChanged 0 (Num 60) [(0, 6)] 4, Timer 6]"

text \<open>
  A second request, with autoplay false, arrives during the display delay of the first
  and loads its metadata; then the delay of the first passes, six seconds are buffered,
  and the poll timer fires.
\<close>

definition manual_request :: LoadInfo where
  "manual_request =
     \<lparr>media = Some \<lparr>contentId = Some ''/other.m3u8'', contentType = None,
                     streamType = None, metadata = None\<rparr>,
      requestAutoplay = Some False, senderId = ''sender-1''\<rparr>"

definition reloaded_events :: "Event list" where
  "reloaded_events =
     loading_events @
     [LoadedMetadata, Load manual_request, TransitionEnd,
      MediaElementChanged 0 (Num 60) [] 0, LoadedMetadata]"

definition reloaded_probe_events :: "Event list" where
  "reloaded_probe_events =
     reloaded_events @ [Timer 4, MediaElementChanged 0 (Num 60) [(0, 6)] 4, Timer 6]"

text \<open>
  The pending idle timers (those that stop the receiver), and the invariant of the idle
  timer: none is pending, or exactly one, recorded in \<open>idleTimerId_\<close>, with the delay
  that \<open>IDLE_TIMEOUT\<close> gives for the current state.
\<close>

definition idle_timers :: "CastPlayer \<Rightarrow> (nat \<times> nat \<times> Callback) list" where
  "idle_timers s = filter (\<lambda>(i, d, cb). cb = CbIdleStop) (timers s)"

definition idle_timer_ok :: "CastPlayer \<Rightarrow> bool" where
  "idle_timer_ok s =
     (idle_timers s = [] \<or>
      (length (idle_timers s) = 1 \<and>
       idleTimerId s = Some (fst (hd (idle_timers s))) \<and>
       IDLE_TIMEOUT (state s) = Some (fst (snd (hd (idle_timers s))))))"

text \<open>The table of the specification: the delays in ms armed on entering a state.\<close>

definition expected_idle_delays :: "State \<Rightarrow> nat list" where
  "expected_idle_delays st =
     (if st \<in> {LAUNCHING, LOADING, DONE, IDLE} then [5 * 60 * 1000]
      else if st = PAUSED then [20 * 60 * 1000]
      else if st = STALLED then [30 * 1000]
      else [])"

section \<open>Properties of the string helpers\<close>

lemma split_str_not_Nil: "split_str sep s \<noteq> []"
  by (induction s) (auto split: list.splits)

lemma split_str_no_sep: "sep \<notin> set s \<Longrightarrow> split_str sep s = [s]"
  by (induction s) auto

lemma length_split_str: "length (split_str sep s) = Suc (length (filter (\<lambda>c. c = sep) s))"
proof (induction s)
  case Nil
  show ?case by simp
next
  case (Cons c cs)
  show ?case
  proof (cases "split_str sep cs")
    case Nil
    with split_str_not_Nil show ?thesis by blast
  next
    case (Cons p ps)
    with Cons.IH show ?thesis by auto
  qed
qed

lemma last_split_str: "last (split_str sep s) = rev (takeWhile (\<lambda>c. c \<noteq> sep) (rev s))"
proof (induction s)
  case Nil
  show ?case by simp
next
  case (Cons c cs)
  obtain p ps where ps: "split_str sep cs = p # ps"
    using split_str_not_Nil by (cases "split_str sep cs") auto
  show ?case
  proof (cases "c = sep")
    case True
    with Cons.IH ps show ?thesis
      by (auto simp: takeWhile_append)
  next
    case False
    show ?thesis
    proof (cases "sep \<in> set cs")
      case True
      then have "length (split_str sep cs) \<noteq> 1"
        by (auto simp: length_split_str filter_empty_conv)
      with ps have "ps \<noteq> []" by auto
      with Cons.IH ps False True show ?thesis
        by (auto simp: takeWhile_append)
    next
      case False
      with \<open>c \<noteq> sep\<close> have "sep \<notin> set (c # cs)" by simp
      then have a: "split_str sep (c # cs) = [c # cs]" by (rule split_str_no_sep)
      have b: "takeWhile (\<lambda>c. c \<noteq> sep) (rev (c # cs)) = rev (c # cs)"
        using \<open>sep \<notin> set (c # cs)\<close> by (intro takeWhile_eq_all_conv[THEN iffD2]) auto
      show ?thesis unfolding a b by simp
    qed
  qed
qed

lemma hd_split_str: "hd (split_str sep s) = takeWhile (\<lambda>c. c \<noteq> sep) s"
proof (induction s)
  case Nil
  show ?case by simp
next
  case (Cons c cs)
  obtain p ps where ps: "split_str sep cs = p # ps"
    using split_str_not_Nil by (cases "split_str sep cs") auto
  with Cons.IH show ?case by auto
qed

lemma length_split_str_one: "length (split_str sep s) = 1 \<longleftrightarrow> sep \<notin> set s"
  by (auto simp: length_split_str filter_empty_conv)

lemma length_split_str_two_hd:
  "hd (split_str sep s) = [] \<and> length (split_str sep s) = 2 \<longleftrightarrow>
     s \<noteq> [] \<and> hd s = sep \<and> sep \<notin> set (tl s)"
proof (cases s)
  case Nil
  then show ?thesis by simp
next
  case (Cons c cs)
  show ?thesis
  proof (cases "c = sep")
    case True
    with Cons show ?thesis
      by (simp add: length_split_str filter_empty_conv) blast
  next
    case False
    with Cons show ?thesis
      by (simp add: hd_split_str del: split_str.simps)
  qed
qed


section \<open>Protocol selection and classification\<close>

lemma startsWith_iff: "startsWith s pat \<longleftrightarrow> (\<exists>post. s = pat @ post)"
  by (induction s pat rule: startsWith.induct) auto

lemma indexOf_ge: "indexOf s pat \<ge> - 1"
  by (induction s) (auto simp: Let_def)

lemma indexOf_zero_iff: "indexOf s pat = 0 \<longleftrightarrow> startsWith s pat"
proof (cases s)
  case Nil
  then show ?thesis by (cases pat) auto
next
  case (Cons c cs)
  have "indexOf cs pat \<ge> - 1" by (rule indexOf_ge)
  with Cons show ?thesis by (auto simp: Let_def)
qed

lemma indexOf_found_iff: "indexOf s pat > - 1 \<longleftrightarrow> contains s pat"
proof (induction s)
  case Nil
  show ?case by (auto simp: contains_def)
next
  case (Cons c cs)
  show ?case
  proof (cases "startsWith (c # cs) pat")
    case True
    then obtain post where "c # cs = pat @ post" by (auto simp: startsWith_iff)
    then have "c # cs = [] @ pat @ post" by simp
    then have "contains (c # cs) pat" unfolding contains_def by blast
    with True show ?thesis by simp
  next
    case False
    have ge: "indexOf cs pat \<ge> - 1" by (rule indexOf_ge)
    have "contains (c # cs) pat \<longleftrightarrow> contains cs pat"
    proof
      assume "contains (c # cs) pat"
      then obtain pre post where pp: "c # cs = pre @ pat @ post" unfolding contains_def by blast
      show "contains cs pat"
      proof (cases pre)
        case Nil
        with pp have "startsWith (c # cs) pat" by (auto simp: startsWith_iff)
        with False show ?thesis by simp
      next
        case (Cons a pre')
        with pp have "cs = pre' @ pat @ post" by simp
        then show ?thesis unfolding contains_def by blast
      qed
    next
      assume "contains cs pat"
      then obtain pre post where "cs = pre @ pat @ post" unfolding contains_def by blast
      then have "c # cs = (c # pre) @ pat @ post" by simp
      then show "contains (c # cs) pat" unfolding contains_def by blast
    qed
    with False Cons.IH ge show ?thesis by (auto simp: Let_def)
  qed
qed

lemma getExtension_suffix:
  assumes "base \<noteq> []" "CHR ''.'' \<notin> set e"
  shows "getExtension (base @ CHR ''.'' # e) = toLowerCase e"
proof -
  let ?u = "base @ CHR ''.'' # e"
  let ?parts = "split_str (CHR ''.'') ?u"
  have one: "length ?parts \<noteq> 1"
    using length_split_str_one[of "CHR ''.''" ?u] by auto
  have two: "\<not> (hd ?parts = [] \<and> length ?parts = 2)"
  proof (cases base)
    case Nil
    with assms show ?thesis by simp
  next
    case (Cons b bs)
    show ?thesis
      unfolding length_split_str_two_hd using Cons by auto
  qed
  have lst: "last ?parts = e"
    using assms by (simp add: last_split_str takeWhile_append del: split_str.simps) 
  show ?thesis
    unfolding getExtension_def Let_def lst using one two by auto
qed


lemma kind_of_chain:
  "kind_of (protocolFunc_of path ctype) =
     (if getExtension path = ''m3u8'' \<or> ctype = ''application/x-mpegurl'' \<or>
         ctype = ''application/vnd.apple.mpegurl'' then HLS
      else if getExtension path = ''mpd'' \<or> ctype = ''application/dash+xml'' then DASH
      else if contains path ''.ism'' \<or> ctype = ''application/vnd.ms-sstr+xml''
      then SmoothStreaming
      else Native)"
  unfolding protocolFunc_of_def indexOf_found_iff by simp

lemma loadVideo_player:
  "player (loadVideo pathname info s) =
     (let m = (case media info of None \<Rightarrow> no_media | Some x \<Rightarrow> x);
          url = or_empty (contentId m)
      in case protocolFunc_of (getPath pathname url) (or_empty (contentType m)) of
           None \<Rightarrow> player s
         | Some f \<Rightarrow> Some \<lparr>protocol = f, hostUrl = url, underflow = False\<rparr>)"
  by (simp add: loadVideo_def Let_def emit_def split: option.splits)

text \<open>
  C1. The protocol is a function of the path of the URL and the content type, checked in
  this order: the lower-cased extension \<open>m3u8\<close> or one of the two HLS content types
  gives HLS; the extension \<open>mpd\<close> or the DASH content type gives DASH; a path that
  contains \<open>.ism\<close> or the Smooth Streaming content type gives SmoothStreaming;
  anything else gives Native. The extension is compared in lower case, so every casing
  of \<open>m3u8\<close> after the last dot gives HLS. \<open>loadVideo_\<close> creates the player of exactly
  that kind, and none for Native.
\<close>

theorem protocol_selection:
  "kind_of (protocolFunc_of path ctype) =
     (if getExtension path = ''m3u8'' \<or> ctype = ''application/x-mpegurl'' \<or>
         ctype = ''application/vnd.apple.mpegurl'' then HLS
      else if getExtension path = ''mpd'' \<or> ctype = ''application/dash+xml'' then DASH
      else if contains path ''.ism'' \<or> ctype = ''application/vnd.ms-sstr+xml''
      then SmoothStreaming
      else Native) \<and>
   (base \<noteq> [] \<and> CHR ''.'' \<notin> set e \<and> toLowerCase e = ''m3u8'' \<longrightarrow>
      kind_of (protocolFunc_of (base @ CHR ''.'' # e) ctype) = HLS) \<and>
   kind_of (map_option protocol (player (loadVideo pathname info (s\<lparr>player := None\<rparr>)))) =
     kind_of (protocolFunc_of
       (getPath pathname (or_empty (contentId (case media info of None \<Rightarrow> no_media | Some x \<Rightarrow> x))))
       (or_empty (contentType (case media info of None \<Rightarrow> no_media | Some x \<Rightarrow> x))))"
proof (intro conjI impI)
  show "kind_of (protocolFunc_of path ctype) =
     (if getExtension path = ''m3u8'' \<or> ctype = ''application/x-mpegurl'' \<or>
         ctype = ''application/vnd.apple.mpegurl'' then HLS
      else if getExtension path = ''mpd'' \<or> ctype = ''application/dash+xml'' then DASH
      else if contains path ''.ism'' \<or> ctype = ''application/vnd.ms-sstr+xml''
      then SmoothStreaming
      else Native)"
    by (rule kind_of_chain)
next
  assume a: "base \<noteq> [] \<and> CHR ''.'' \<notin> set e \<and> toLowerCase e = ''m3u8''"
  then have "getExtension (base @ CHR ''.'' # e) = ''m3u8''"
    by (simp add: getExtension_suffix)
  then show "kind_of (protocolFunc_of (base @ CHR ''.'' # e) ctype) = HLS"
    by (simp add: protocolFunc_of_def)
next
  show "kind_of (map_option protocol (player (loadVideo pathname info (s\<lparr>player := None\<rparr>)))) =
     kind_of (protocolFunc_of
       (getPath pathname (or_empty (contentId (case media info of None \<Rightarrow> no_media | Some x \<Rightarrow> x))))
       (or_empty (contentType (case media info of None \<Rightarrow> no_media | Some x \<Rightarrow> x))))"
    by (simp add: loadVideo_player Let_def split: option.splits)
qed

theorem protocol_selection_witness:
  "(''/video'' \<noteq> [] \<and> CHR ''.'' \<notin> set ''M3U8'' \<and> toLowerCase ''M3U8'' = ''m3u8'') \<and>
   kind_of (protocolFunc_of ''/video.M3U8'' []) = HLS"
proof -
  have h: "''/video'' \<noteq> [] \<and> CHR ''.'' \<notin> set ''M3U8'' \<and> toLowerCase ''M3U8'' = ''m3u8''"
    by (simp add: toLowerCase_def lower_char_def)
  have "kind_of (protocolFunc_of (''/video'' @ CHR ''.'' # ''M3U8'') []) = HLS"
    using protocol_selection[where base="''/video''" and e="''M3U8''" and ctype="[]",
        THEN conjunct2, THEN conjunct1] h by blast
  with h show ?thesis by simp
qed

lemma startsWith_append: "startsWith (p @ r) p"
  by (simp add: startsWith_iff)

lemma getType_prefix:
  assumes "mime \<in> {''application/x-mpegurl'', ''application/vnd.apple.mpegurl'',
                    ''application/dash+xml'', ''application/vnd.ms-sstr+xml''}"
      and "contentType m = Some (mime @ suffix)"
  shows "getType pathname m = VIDEO"
proof -
  have "indexOf (mime @ suffix) mime = 0"
    by (simp add: indexOf_zero_iff startsWith_append)
  with assms show ?thesis
    unfolding getType_def Let_def or_empty_def by auto
qed

lemma strict_extension_no_mime:
  assumes "mime \<in> {''application/x-mpegurl'', ''application/vnd.apple.mpegurl'',
                    ''application/dash+xml'', ''application/vnd.ms-sstr+xml''}"
      and "suffix \<noteq> []"
  shows "mime @ suffix \<notin> {''application/x-mpegurl'', ''application/vnd.apple.mpegurl'',
                    ''application/dash+xml'', ''application/vnd.ms-sstr+xml''}"
  using assms by auto

text \<open>
  C9. The classification matches content types by prefix, the protocol selection by
  equality: when the content type extends one of the four streaming types by at least
  one character, and the path has neither the extension \<open>m3u8\<close> or \<open>mpd\<close> nor the
  text \<open>.ism\<close>, the request passes validation as video, no protocol is selected, and
  \<open>load\<close> hands the request to the media element (the original \<open>onLoad\<close>) without
  creating a player.
\<close>

theorem prefix_type_plays_native:
  assumes "mime \<in> {''application/x-mpegurl'', ''application/vnd.apple.mpegurl'',
                    ''application/dash+xml'', ''application/vnd.ms-sstr+xml''}"
      and "suffix \<noteq> []"
      and "media info = Some m"
      and "contentType m = Some (mime @ suffix)"
      and "contentId m = Some url" and "url \<noteq> []"
      and "getExtension (getPath pathname url) \<noteq> ''m3u8''"
      and "getExtension (getPath pathname url) \<noteq> ''mpd''"
      and "indexOf (getPath pathname url) ''.ism'' = - 1"
  shows "getType pathname m = VIDEO \<and>
         kind_of (protocolFunc_of (getPath pathname url) (mime @ suffix)) = Native \<and>
         player (load pathname info s) = None \<and>
         effects (load pathname info s) =
           effects s @ (if player s = None then [] else [PlayerUnload]) @ [OnLoadOrig info]"
proof -
  have ty: "getType pathname m = VIDEO"
    using assms(1,4) by (rule getType_prefix)
  have nm: "mime @ suffix \<notin> {''application/x-mpegurl'', ''application/vnd.apple.mpegurl'',
                    ''application/dash+xml'', ''application/vnd.ms-sstr+xml''}"
    using assms(1,2) by (rule strict_extension_no_mime)
  have pf: "protocolFunc_of (getPath pathname url) (mime @ suffix) = None"
    using nm assms(7,8,9) unfolding protocolFunc_of_def by auto
  have lv: "loadVideo pathname info t =
      emit (OnLoadOrig info)
        (t\<lparr>stalledListeners := stalledListeners t + 1,
           waitingListeners := waitingListeners t + 1\<rparr>)" for t
    using pf assms(3,4,5) by (simp add: loadVideo_def or_empty_def)
  have ld: "load pathname info s =
      preload m (loadVideo pathname info
        (setType VIDEO (streamType m = Some LIVE)
          (resetMediaElement (clearTimeout (idleTimerId s) s))))"
    using ty assms(3,5,6) by (simp add: load_def Let_def)
  have p: "player (load pathname info s) = None"
    unfolding ld lv
    by (auto simp: preload_def doneFunc_def transition_def fadeTo_def emit_def setType_def
        resetMediaElement_def clearTimeout_def Let_def split: option.splits)
  have e: "effects (load pathname info s) =
           effects s @ (if player s = None then [] else [PlayerUnload]) @ [OnLoadOrig info]"
    unfolding ld lv
    by (auto simp: preload_def doneFunc_def transition_def fadeTo_def emit_def setType_def
        resetMediaElement_def clearTimeout_def Let_def split: option.splits)
  from ty pf p e show ?thesis by simp
qed

theorem prefix_type_plays_native_witness:
  "getType (\<lambda>u. u) (the (media hls_charset_request)) = VIDEO \<and>
   kind_of (protocolFunc_of ''/live/stream'' ''application/x-mpegurl;charset=UTF-8'') = Native \<and>
   player (load (\<lambda>u. u) hls_charset_request newCastPlayer) = None \<and>
   effects (load (\<lambda>u. u) hls_charset_request newCastPlayer) =
     effects newCastPlayer @ [OnLoadOrig hls_charset_request]"
proof -
  have np: "player newCastPlayer = None"
    by (simp add: newCastPlayer_def blank_def setType_def setState_def setIdleTimeout_def
        setTimeout_def clearTimeout_def updateApplicationState_def emit_def Let_def)
  have ex: "getExtension (getPath (\<lambda>u. u) ''/live/stream'') = []"
    by (simp add: getExtension_def getPath_def)
  have ix: "indexOf (getPath (\<lambda>u. u) ''/live/stream'') ''.ism'' = - 1"
    by (simp add: getPath_def)
  show ?thesis
    using prefix_type_plays_native[of "''application/x-mpegurl''" "'';charset=UTF-8''"
        hls_charset_request "the (media hls_charset_request)" "''/live/stream''" "\<lambda>u. u"
        newCastPlayer] np ex ix
    by (simp add: hls_charset_request_def getPath_def)
qed

section \<open>Fields that the operations leave alone\<close>

lemma effects_emit [simp]: "effects (emit e s) = effects s @ [e]"
  by (simp add: emit_def)

lemma fadeListeners_fadeTo [simp]: "fadeListeners (fadeTo l s) = fadeListeners s @ [l]"
  by (simp add: fadeTo_def)

lemma fadeListeners_transition [simp]:
  "fadeListeners (transition sm s) = fadeListeners s @ [FadeOut sm]"
  by (simp add: transition_def)

lemma timers_clearTimeout:
  "timers (clearTimeout i s) =
     (case i of None \<Rightarrow> timers s | Some k \<Rightarrow> filter (\<lambda>(j, t, cb). j \<noteq> k) (timers s))"
  by (simp add: clearTimeout_def split: option.splits)

lemma setTimeout_result [simp]:
  "fst (setTimeout cb t s) = nextTimerId s"
  "timers (snd (setTimeout cb t s)) = timers s @ [(nextTimerId s, t, cb)]"
  "nextTimerId (snd (setTimeout cb t s)) = Suc (nextTimerId s)"
  by (simp_all add: setTimeout_def Let_def)

lemma clearTimeout_fields [simp]:
  "type (clearTimeout i s) = type s"
  "live (clearTimeout i s) = live s"
  "state (clearTimeout i s) = state s"
  "idleTimerId (clearTimeout i s) = idleTimerId s"
  "delay (clearTimeout i s) = delay s"
  "playerAutoPlay (clearTimeout i s) = playerAutoPlay s"
  "playerAutoPlayTimerId (clearTimeout i s) = playerAutoPlayTimerId s"
  "seekingTimeoutId (clearTimeout i s) = seekingTimeoutId s"
  "player (clearTimeout i s) = player s"
  "applicationState (clearTimeout i s) = applicationState s"
  "hasMediaManager (clearTimeout i s) = hasMediaManager s"
  "mediaElement (clearTimeout i s) = mediaElement s"
  "mediaInformation (clearTimeout i s) = mediaInformation s"
  "senders (clearTimeout i s) = senders s"
  "stalledListeners (clearTimeout i s) = stalledListeners s"
  "waitingListeners (clearTimeout i s) = waitingListeners s"
  "nextTimerId (clearTimeout i s) = nextTimerId s"
  "fadeListeners (clearTimeout i s) = fadeListeners s"
  "imagesLoading (clearTimeout i s) = imagesLoading s"
  "effects (clearTimeout i s) = effects s"
  by (simp_all add: clearTimeout_def split: option.splits)

lemma emit_fields [simp]:
  "type (emit e s) = type s"
  "live (emit e s) = live s"
  "state (emit e s) = state s"
  "idleTimerId (emit e s) = idleTimerId s"
  "delay (emit e s) = delay s"
  "playerAutoPlay (emit e s) = playerAutoPlay s"
  "playerAutoPlayTimerId (emit e s) = playerAutoPlayTimerId s"
  "seekingTimeoutId (emit e s) = seekingTimeoutId s"
  "player (emit e s) = player s"
  "applicationState (emit e s) = applicationState s"
  "hasMediaManager (emit e s) = hasMediaManager s"
  "mediaElement (emit e s) = mediaElement s"
  "mediaInformation (emit e s) = mediaInformation s"
  "senders (emit e s) = senders s"
  "stalledListeners (emit e s) = stalledListeners s"
  "waitingListeners (emit e s) = waitingListeners s"
  "timers (emit e s) = timers s"
  "nextTimerId (emit e s) = nextTimerId s"
  "fadeListeners (emit e s) = fadeListeners s"
  "imagesLoading (emit e s) = imagesLoading s"
  by (simp_all add: emit_def)

lemma fadeTo_fields [simp]:
  "type (fadeTo l s) = type s"
  "live (fadeTo l s) = live s"
  "state (fadeTo l s) = state s"
  "idleTimerId (fadeTo l s) = idleTimerId s"
  "delay (fadeTo l s) = delay s"
  "playerAutoPlay (fadeTo l s) = playerAutoPlay s"
  "playerAutoPlayTimerId (fadeTo l s) = playerAutoPlayTimerId s"
  "seekingTimeoutId (fadeTo l s) = seekingTimeoutId s"
  "player (fadeTo l s) = player s"
  "applicationState (fadeTo l s) = applicationState s"
  "hasMediaManager (fadeTo l s) = hasMediaManager s"
  "mediaElement (fadeTo l s) = mediaElement s"
  "mediaInformation (fadeTo l s) = mediaInformation s"
  "senders (fadeTo l s) = senders s"
  "stalledListeners (fadeTo l s) = stalledListeners s"
  "waitingListeners (fadeTo l s) = waitingListeners s"
  "timers (fadeTo l s) = timers s"
  "nextTimerId (fadeTo l s) = nextTimerId s"
  "imagesLoading (fadeTo l s) = imagesLoading s"
  "effects (fadeTo l s) = effects s"
  by (simp_all add: fadeTo_def)

lemma transition_fields [simp]:
  "type (transition sm s) = type s"
  "live (transition sm s) = live s"
  "state (transition sm s) = state s"
  "idleTimerId (transition sm s) = idleTimerId s"
  "delay (transition sm s) = delay s"
  "playerAutoPlay (transition sm s) = playerAutoPlay s"
  "playerAutoPlayTimerId (transition sm s) = playerAutoPlayTimerId s"
  "seekingTimeoutId (transition sm s) = seekingTimeoutId s"
  "player (transition sm s) = player s"
  "applicationState (transition sm s) = applicationState s"
  "hasMediaManager (transition sm s) = hasMediaManager s"
  "mediaElement (transition sm s) = mediaElement s"
  "mediaInformation (transition sm s) = mediaInformation s"
  "senders (transition sm s) = senders s"
  "stalledListeners (transition sm s) = stalledListeners s"
  "waitingListeners (transition sm s) = waitingListeners s"
  "timers (transition sm s) = timers s"
  "nextTimerId (transition sm s) = nextTimerId s"
  "imagesLoading (transition sm s) = imagesLoading s"
  "effects (transition sm s) = effects s"
  by (simp_all add: transition_def)

lemma setTimeout_fields [simp]:
  "type (snd (setTimeout cb t s)) = type s"
  "live (snd (setTimeout cb t s)) = live s"
  "state (snd (setTimeout cb t s)) = state s"
  "idleTimerId (snd (setTimeout cb t s)) = idleTimerId s"
  "delay (snd (setTimeout cb t s)) = delay s"
  "playerAutoPlay (snd (setTimeout cb t s)) = playerAutoPlay s"
  "playerAutoPlayTimerId (snd (setTimeout cb t s)) = playerAutoPlayTimerId s"
  "seekingTimeoutId (snd (setTimeout cb t s)) = seekingTimeoutId s"
  "player (snd (setTimeout cb t s)) = player s"
  "applicationState (snd (setTimeout cb t s)) = applicationState s"
  "hasMediaManager (snd (setTimeout cb t s)) = hasMediaManager s"
  "mediaElement (snd (setTimeout cb t s)) = mediaElement s"
  "mediaInformation (snd (setTimeout cb t s)) = mediaInformation s"
  "senders (snd (setTimeout cb t s)) = senders s"
  "stalledListeners (snd (setTimeout cb t s)) = stalledListeners s"
  "waitingListeners (snd (setTimeout cb t s)) = waitingListeners s"
  "fadeListeners (snd (setTimeout cb t s)) = fadeListeners s"
  "imagesLoading (snd (setTimeout cb t s)) = imagesLoading s"
  "effects (snd (setTimeout cb t s)) = effects s"
  by (simp_all add: setTimeout_def Let_def)

lemma updateApplicationState_fields [simp]:
  "type (updateApplicationState s) = type s"
  "live (updateApplicationState s) = live s"
  "state (updateApplicationState s) = state s"
  "idleTimerId (updateApplicationState s) = idleTimerId s"
  "delay (updateApplicationState s) = delay s"
  "playerAutoPlay (updateApplicationState s) = playerAutoPlay s"
  "playerAutoPlayTimerId (updateApplicationState s) = playerAutoPlayTimerId s"
  "seekingTimeoutId (updateApplicationState s) = seekingTimeoutId s"
  "player (updateApplicationState s) = player s"
  "hasMediaManager (updateApplicationState s) = hasMediaManager s"
  "mediaElement (updateApplicationState s) = mediaElement s"
  "mediaInformation (updateApplicationState s) = mediaInformation s"
  "senders (updateApplicationState s) = senders s"
  "stalledListeners (updateApplicationState s) = stalledListeners s"
  "waitingListeners (updateApplicationState s) = waitingListeners s"
  "timers (updateApplicationState s) = timers s"
  "nextTimerId (updateApplicationState s) = nextTimerId s"
  "fadeListeners (updateApplicationState s) = fadeListeners s"
  "imagesLoading (updateApplicationState s) = imagesLoading s"
  by (simp_all add: updateApplicationState_def Let_def)

lemma setIdleTimeout_fields [simp]:
  "type (setIdleTimeout t s) = type s"
  "live (setIdleTimeout t s) = live s"
  "state (setIdleTimeout t s) = state s"
  "delay (setIdleTimeout t s) = delay s"
  "playerAutoPlay (setIdleTimeout t s) = playerAutoPlay s"
  "playerAutoPlayTimerId (setIdleTimeout t s) = playerAutoPlayTimerId s"
  "seekingTimeoutId (setIdleTimeout t s) = seekingTimeoutId s"
  "player (setIdleTimeout t s) = player s"
  "applicationState (setIdleTimeout t s) = applicationState s"
  "hasMediaManager (setIdleTimeout t s) = hasMediaManager s"
  "mediaElement (setIdleTimeout t s) = mediaElement s"
  "mediaInformation (setIdleTimeout t s) = mediaInformation s"
  "senders (setIdleTimeout t s) = senders s"
  "stalledListeners (setIdleTimeout t s) = stalledListeners s"
  "waitingListeners (setIdleTimeout t s) = waitingListeners s"
  "fadeListeners (setIdleTimeout t s) = fadeListeners s"
  "imagesLoading (setIdleTimeout t s) = imagesLoading s"
  "effects (setIdleTimeout t s) = effects s"
  by (simp_all add: setIdleTimeout_def Let_def setTimeout_def split: option.splits)

lemma cancelPlayerAutoPlay_fields [simp]:
  "type (cancelPlayerAutoPlay s) = type s"
  "live (cancelPlayerAutoPlay s) = live s"
  "state (cancelPlayerAutoPlay s) = state s"
  "idleTimerId (cancelPlayerAutoPlay s) = idleTimerId s"
  "delay (cancelPlayerAutoPlay s) = delay s"
  "playerAutoPlay (cancelPlayerAutoPlay s) = playerAutoPlay s"
  "seekingTimeoutId (cancelPlayerAutoPlay s) = seekingTimeoutId s"
  "player (cancelPlayerAutoPlay s) = player s"
  "applicationState (cancelPlayerAutoPlay s) = applicationState s"
  "hasMediaManager (cancelPlayerAutoPlay s) = hasMediaManager s"
  "mediaElement (cancelPlayerAutoPlay s) = mediaElement s"
  "mediaInformation (cancelPlayerAutoPlay s) = mediaInformation s"
  "senders (cancelPlayerAutoPlay s) = senders s"
  "stalledListeners (cancelPlayerAutoPlay s) = stalledListeners s"
  "waitingListeners (cancelPlayerAutoPlay s) = waitingListeners s"
  "nextTimerId (cancelPlayerAutoPlay s) = nextTimerId s"
  "fadeListeners (cancelPlayerAutoPlay s) = fadeListeners s"
  "imagesLoading (cancelPlayerAutoPlay s) = imagesLoading s"
  "effects (cancelPlayerAutoPlay s) = effects s"
  by (simp_all add: cancelPlayerAutoPlay_def)

lemma setState_now:
  "setState st False None s =
     setIdleTimeout (IDLE_TIMEOUT st)
       (updateApplicationState ((clearTimeout (delay s) s)\<lparr>state := st\<rparr>))"
  by (simp add: setState_def)

lemma setState_crossfade:
  "setState st True None s = transition (SmSetState st) (clearTimeout (delay s) s)"
  by (simp add: setState_def)

lemma state_setState_now [simp]: "state (setState st False None s) = st"
  by (simp add: setState_now)

lemma player_setState [simp]: "player (setState st cf d s) = player s"
  by (simp add: setState_def Let_def split_beta)

lemma mediaElement_setState [simp]: "mediaElement (setState st cf d s) = mediaElement s"
  by (simp add: setState_def Let_def split_beta)

text \<open>The application-state call that a state change makes, if any.\<close>

lemma effects_setState_now:
  "effects (setState st False None s) =
     effects s @
       (let appState = getApplicationState (if st = IDLE then None else mediaInformation s)
        in if hasMediaManager s \<and> applicationState s \<noteq> Some appState
           then [SetApplicationState appState] else [])"
  by (simp add: setState_now updateApplicationState_def Let_def)

section \<open>Pause and progress signals\<close>

text \<open>
  C5. On a pause signal: when the backend reports an underflow, the state becomes
  \<open>BUFFERING\<close> and a status broadcast without the media is requested; otherwise, when
  the state is \<open>IDLE\<close> or the current time equals the duration, the state stays as it
  is; otherwise the state becomes \<open>PAUSED\<close>. The broadcast is requested in the
  underflow case only.
\<close>

theorem pause_signal:
  "state (onPause s) =
     (if (case player s of None \<Rightarrow> False | Some p \<Rightarrow> underflow p) then BUFFERING
      else if state s = IDLE \<or> js_eq (currentTime (mediaElement s)) (duration (mediaElement s))
      then state s
      else PAUSED) \<and>
   filter (\<lambda>e. e = BroadcastStatus False) (effects (onPause s)) =
     filter (\<lambda>e. e = BroadcastStatus False) (effects s) @
       (if (case player s of None \<Rightarrow> False | Some p \<Rightarrow> underflow p)
        then [BroadcastStatus False] else [])"
  by (simp add: onPause_def Let_def effects_setState_now)

text \<open>
  C8. A progress signal that arrives while the state is \<open>PLAYING\<close> changes nothing:
  the player is the same afterwards, so the state stays \<open>PLAYING\<close>, no timer is armed
  or cancelled, and no call (so no application-state broadcast) is made.
\<close>

theorem progress_while_playing:
  "state s = PLAYING \<Longrightarrow>
     step pathname TimeUpdate s = s \<and>
     state (step pathname TimeUpdate s) = PLAYING \<and>
     timers (step pathname TimeUpdate s) = timers s \<and>
     idleTimerId (step pathname TimeUpdate s) = idleTimerId s \<and>
     effects (step pathname TimeUpdate s) = effects s"
  by (simp add: onProgress_def)

lemmas eval_defs =
  run_def playing_events_def hls_request_def newCastPlayer_def blank_def
  setType_def setState_def setIdleTimeout_def setTimeout_def clearTimeout_def
  updateApplicationState_def getApplicationState_def emit_def fadeTo_def transition_def
  onReady_def onLoad_def load_def loadVideo_def cancelPlayerAutoPlay_def getType_def
  protocolFunc_of_def getPath_def getExtension_def toLowerCase_def lower_char_def
  or_empty_def no_media_def resetMediaElement_def preload_def doneFunc_def
  getMediaImageUrl_def transitionEnd_def onLoadSuccess_def fireTimer_def
  mediaInfoElapsed_def doPlayerAutoPlay_def getBufferedDuration_def onPlaying_def
  onPause_def onStop_def onError_def onLoadMetadataError_def hostOnError_def
  onProgress_def onEnded_def onBuffering_def
  MEDIA_INFO_DURATION_def INITIAL_PUMP_DURATION_def PUMP_POLLING_INTERVAL_def Let_def

lemma playing_events_state:
  "state (run (\<lambda>u. u) playing_events newCastPlayer) = PLAYING"
  by (simp add: eval_defs)

theorem progress_while_playing_witness:
  "state (run (\<lambda>u. u) playing_events newCastPlayer) = PLAYING \<and>
   step (\<lambda>u. u) TimeUpdate (run (\<lambda>u. u) playing_events newCastPlayer) =
     run (\<lambda>u. u) playing_events newCastPlayer"
proof -
  have h: "state (run (\<lambda>u. u) playing_events newCastPlayer) = PLAYING"
    by (rule playing_events_state)
  from progress_while_playing[OF h, of "\<lambda>u. u"] h show ?thesis by blast
qed

section \<open>The auto-play probe\<close>

lemma run_Nil [simp]: "run pn [] s = s"
  by (simp add: run_def)

lemma run_Cons [simp]: "run pn (e # es) s = run pn es (step pn e s)"
  by (simp add: run_def)

lemma run_append: "run pn (xs @ ys) s = run pn ys (run pn xs s)"
  by (simp add: run_def)


lemma filter_last_timer:
  assumes "list_all (\<lambda>(j, t, cb). j < (i::nat)) ts"
  shows "filter (\<lambda>(j, t, cb). j \<noteq> i) (ts @ [(i, d, cb)]) = ts"
  using assms by (induction ts) auto












lemma loading_state:
  "run (\<lambda>u. u) loading_events newCastPlayer =
     \<lparr>type = VIDEO, live = False, state = LOADING, idleTimerId = Some 3, delay = None,
      playerAutoPlay = True, playerAutoPlayTimerId = None, seekingTimeoutId = None,
      player = Some \<lparr>protocol = CreateHlsStreamingProtocol, hostUrl = ''/video.m3u8'',
                     underflow = False\<rparr>,
      applicationState = Some ''Ready To Cast'', hasMediaManager = True,
      mediaElement =
        \<lparr>currentTime = 0, duration = Num 60, buffered = [], readyState = 0, autoplay = False\<rparr>,
      mediaInformation = None, senders = 0, stalledListeners = 0, waitingListeners = 0,
      timers = [(3, 300000, CbIdleStop)], nextTimerId = 4, fadeListeners = [FadeIn],
      imagesLoading = [],
      effects = [SetApplicationState ''Ready To Cast'', SetApplicationState ''Ready To Cast'',
                 PlayerLoad CreateHlsStreamingProtocol ''/video.m3u8'']\<rparr>"
  by (simp add: eval_defs loading_events_def)


section \<open>Errors and invalid loads\<close>

lemma fadeTo_reset: "(fadeTo l s)\<lparr>fadeListeners := []\<rparr> = s\<lparr>fadeListeners := []\<rparr>"
  by (simp add: fadeTo_def)

lemma transitionEnd_fadeTo: "transitionEnd (fadeTo l s) = run_listener l (transitionEnd s)"
  by (simp add: transitionEnd_def fadeTo_reset)

lemma transitionEnd_transition:
  "transitionEnd (transition sm s) = fadeTo FadeIn (run_something sm (transitionEnd s))"
  by (simp add: transition_def transitionEnd_fadeTo)

lemma emit_fadeTo: "emit e (fadeTo l s) = fadeTo l (emit e s)"
  by (simp add: emit_def fadeTo_def)

text \<open>A crossfade to a state takes one more transition end.\<close>

lemma state_after_crossfade:
  "state (transitionEnd (fadeTo FadeIn (emit e (setState st True None s)))) = st"
proof -
  have "fadeTo FadeIn (emit e (setState st True None s)) =
      fadeTo FadeIn (fadeTo (FadeOut (SmSetState st)) (emit e (clearTimeout (delay s) s)))"
    by (simp add: setState_crossfade transition_def emit_fadeTo)
  then show ?thesis
    by (simp add: transitionEnd_fadeTo)
qed

lemma player_run_something [simp]: "player (run_something sm s) = player s"
  by (cases sm) simp_all

lemma type_setState [simp]: "type (setState st cf d s) = type s"
  by (simp add: setState_def Let_def split_beta)

lemma live_setState [simp]: "live (setState st cf d s) = live s"
  by (simp add: setState_def Let_def split_beta)

lemma type_run_something [simp]: "type (run_something sm s) = type s"
  by (cases sm) simp_all

lemma live_run_something [simp]: "live (run_something sm s) = live s"
  by (cases sm) simp_all

lemma session_effects_setState [simp]:
  "filter creates_session (effects (setState st cf d s)) = filter creates_session (effects s)"
  by (simp add: setState_def Let_def split_beta updateApplicationState_def emit_def
      creates_session_def)

lemma session_effects_run_something [simp]:
  "filter creates_session (effects (run_something sm s)) = filter creates_session (effects s)"
  by (cases sm) (simp_all add: creates_session_def)

lemma fold_run_listener_keeps:
  "player (fold run_listener ls s) = player s \<and>
   type (fold run_listener ls s) = type s \<and>
   live (fold run_listener ls s) = live s \<and>
   filter creates_session (effects (fold run_listener ls s)) = filter creates_session (effects s)"
proof (induction ls arbitrary: s)
  case Nil
  show ?case by simp
next
  case (Cons l ls)
  show ?case
    by (cases l) (simp_all add: Cons.IH)
qed

lemma transitionEnd_keeps [simp]:
  "player (transitionEnd s) = player s"
  "type (transitionEnd s) = type s"
  "live (transitionEnd s) = live s"
  "filter creates_session (effects (transitionEnd s)) = filter creates_session (effects s)"
  by (simp_all add: transitionEnd_def fold_run_listener_keeps)

lemma effects_setState_crossfade [simp]:
  "effects (setState st True None s) = effects s"
  by (simp add: setState_crossfade)

lemma creates_session_simps [simp]:
  "creates_session (PlayerLoad f u)"
  "\<not> creates_session (SetApplicationState a)"
  "\<not> creates_session ReceiverStop"
  "\<not> creates_session (BroadcastStatus b)"
  "\<not> creates_session (OnLoadOrig i)"
  "\<not> creates_session (OnStopOrig ev)"
  "\<not> creates_session (OnErrorOrig er)"
  "\<not> creates_session (OnLoadMetadataErrorOrig i)"
  "\<not> creates_session MediaPlay"
  "\<not> creates_session MediaPause"
  "\<not> creates_session PlayerUnload"
  by (simp_all add: creates_session_def)


lemma state_after_metadata_error:
  "state (transitionEnd (transitionEnd (onLoadMetadataError info s))) = IDLE"
  "effects (transitionEnd (onLoadMetadataError info s)) =
     effects (transitionEnd s) @ [OnLoadMetadataErrorOrig info]"
  by (simp_all add: onLoadMetadataError_def transitionEnd_transition state_after_crossfade)

lemma load_invalid:
  assumes "contentId (case media info of None \<Rightarrow> no_media | Some x \<Rightarrow> x) = None \<or>
           contentId (case media info of None \<Rightarrow> no_media | Some x \<Rightarrow> x) = Some [] \<or>
           getType pn (case media info of None \<Rightarrow> no_media | Some x \<Rightarrow> x) = UNKNOWN"
  shows "load pn info s = onLoadMetadataError info (clearTimeout (idleTimerId s) s)"
  using assms by (auto simp: load_def Let_def)

text \<open>
  C6. A load whose content id is absent or empty, or whose media is not classified as
  video, takes the error path: no player is created or unloaded, type and state are
  not reset, nothing is sent by the load itself; the metadata-error hook gets the load
  request at the next transition end, the state is \<open>IDLE\<close> after the second one, and
  no playback session is created on the way.
\<close>

theorem invalid_load_goes_idle:
  assumes "contentId (case media info of None \<Rightarrow> no_media | Some x \<Rightarrow> x) = None \<or>
           contentId (case media info of None \<Rightarrow> no_media | Some x \<Rightarrow> x) = Some [] \<or>
           getType pn (case media info of None \<Rightarrow> no_media | Some x \<Rightarrow> x) = UNKNOWN"
  shows "state (transitionEnd (transitionEnd (load pn info s))) = IDLE \<and>
         effects (transitionEnd (load pn info s)) =
           effects (transitionEnd (clearTimeout (idleTimerId s) s)) @
             [OnLoadMetadataErrorOrig info] \<and>
         player (load pn info s) = player s \<and>
         type (load pn info s) = type s \<and>
         live (load pn info s) = live s \<and>
         state (load pn info s) = state s \<and>
         effects (load pn info s) = effects s \<and>
         player (transitionEnd (transitionEnd (load pn info s))) = player s \<and>
         type (transitionEnd (transitionEnd (load pn info s))) = type s \<and>
         filter creates_session (effects (transitionEnd (transitionEnd (load pn info s)))) =
           filter creates_session (effects s)"
  unfolding load_invalid[OF assms]
  by (simp add: state_after_metadata_error) (simp add: onLoadMetadataError_def)

theorem invalid_load_goes_idle_witness:
  "(contentId (case media empty_request of None \<Rightarrow> no_media | Some x \<Rightarrow> x) = Some []) \<and>
   state (transitionEnd (transitionEnd
     (load (\<lambda>u. u) empty_request (run (\<lambda>u. u) loading_events newCastPlayer)))) = IDLE \<and>
   player (transitionEnd (transitionEnd
     (load (\<lambda>u. u) empty_request (run (\<lambda>u. u) loading_events newCastPlayer)))) =
     player (run (\<lambda>u. u) loading_events newCastPlayer)"
proof -
  have h: "contentId (case media empty_request of None \<Rightarrow> no_media | Some x \<Rightarrow> x) = Some []"
    by (simp add: empty_request_def)
  then have h': "contentId (case media empty_request of None \<Rightarrow> no_media | Some x \<Rightarrow> x) = None \<or>
           contentId (case media empty_request of None \<Rightarrow> no_media | Some x \<Rightarrow> x) = Some [] \<or>
           getType (\<lambda>u. u) (case media empty_request of None \<Rightarrow> no_media | Some x \<Rightarrow> x) = UNKNOWN"
    by blast
  from invalid_load_goes_idle[OF h', of "run (\<lambda>u. u) loading_events newCastPlayer"] h
  show ?thesis by blast
qed





section \<open>Cancelling the probe\<close>

text \<open>
  C7, evaluated at two failing inputs. A stop during the display delay finds no timer
  identifier to cancel (the timer of the delay is not recorded): the state becomes
  \<open>IDLE\<close>, the timer stays pending, and the probe goes on to poll and to start
  playback. A new load with autoplay false during the display delay of the previous one
  leaves that timer pending too, and its probe starts the playback of the new content.
\<close>

theorem cancelled_probe_starts_playback:
  "(state (run (\<lambda>u. u) stopped_events newCastPlayer) = IDLE \<and>
    playerAutoPlayTimerId (run (\<lambda>u. u) stopped_events newCastPlayer) = None \<and>
    timers (run (\<lambda>u. u) stopped_events newCastPlayer) =
      [(4, 2000, CbMediaInfo (Num 60)), (5, 300000, CbIdleStop)] \<and>
    timers (run (\<lambda>u. u) (stopped_events @ [Timer 4]) newCastPlayer) =
      [(5, 300000, CbIdleStop), (6, 200, CbAutoPlay)] \<and>
    state (run (\<lambda>u. u) stopped_probe_events newCastPlayer) = IDLE \<and>
    effects (run (\<lambda>u. u) stopped_probe_events newCastPlayer) =
      effects (run (\<lambda>u. u) stopped_events newCastPlayer) @ [MediaPlay]) \<and>
   (playerAutoPlay (run (\<lambda>u. u) reloaded_events newCastPlayer) = False \<and>
    playerAutoPlayTimerId (run (\<lambda>u. u) reloaded_events newCastPlayer) = None \<and>
    timers (run (\<lambda>u. u) reloaded_events newCastPlayer) =
      [(4, 2000, CbMediaInfo (Num 60)), (5, 300000, CbIdleStop)] \<and>
    map_option hostUrl (player (run (\<lambda>u. u) reloaded_probe_events newCastPlayer)) =
      Some ''/other.m3u8'' \<and>
    effects (run (\<lambda>u. u) reloaded_probe_events newCastPlayer) =
      effects (run (\<lambda>u. u) reloaded_events newCastPlayer) @ [MediaPlay])"
  unfolding stopped_probe_events_def stopped_events_def reloaded_probe_events_def
    reloaded_events_def run_append loading_state
  by (simp add: eval_defs manual_request_def)

section \<open>The idle timer\<close>

lemma idle_timer_ok_updates [simp]:
  "idle_timer_ok (type_update f0 s) = idle_timer_ok s"
  "idle_timer_ok (live_update f1 s) = idle_timer_ok s"
  "idle_timer_ok (delay_update f2 s) = idle_timer_ok s"
  "idle_timer_ok (playerAutoPlay_update f3 s) = idle_timer_ok s"
  "idle_timer_ok (playerAutoPlayTimerId_update f4 s) = idle_timer_ok s"
  "idle_timer_ok (seekingTimeoutId_update f5 s) = idle_timer_ok s"
  "idle_timer_ok (player_update f6 s) = idle_timer_ok s"
  "idle_timer_ok (applicationState_update f7 s) = idle_timer_ok s"
  "idle_timer_ok (hasMediaManager_update f8 s) = idle_timer_ok s"
  "idle_timer_ok (mediaElement_update f9 s) = idle_timer_ok s"
  "idle_timer_ok (mediaInformation_update f10 s) = idle_timer_ok s"
  "idle_timer_ok (senders_update f11 s) = idle_timer_ok s"
  "idle_timer_ok (stalledListeners_update f12 s) = idle_timer_ok s"
  "idle_timer_ok (waitingListeners_update f13 s) = idle_timer_ok s"
  "idle_timer_ok (nextTimerId_update f14 s) = idle_timer_ok s"
  "idle_timer_ok (fadeListeners_update f15 s) = idle_timer_ok s"
  "idle_timer_ok (imagesLoading_update f16 s) = idle_timer_ok s"
  "idle_timer_ok (effects_update f17 s) = idle_timer_ok s"
  by (simp_all add: idle_timer_ok_def idle_timers_def)

lemma idle_timer_ok_cases:
  "idle_timer_ok s \<longleftrightarrow>
     idle_timers s = [] \<or>
     (\<exists>i d. idle_timers s = [(i, d, CbIdleStop)] \<and> idleTimerId s = Some i \<and>
            IDLE_TIMEOUT (state s) = Some d)"
proof (cases "idle_timers s")
  case Nil
  then show ?thesis by (simp add: idle_timer_ok_def)
next
  case (Cons x xs)
  obtain i d cb where x: "x = (i, d, cb)" by (cases x) auto
  have "x \<in> set (idle_timers s)" using Cons by simp
  then have cb: "cb = CbIdleStop" by (auto simp: idle_timers_def x)
  show ?thesis
    using Cons x cb by (cases xs) (auto simp: idle_timer_ok_def)
qed

lemma idle_timers_clearTimeout:
  "idle_timers (clearTimeout k s) =
     (case k of None \<Rightarrow> idle_timers s
      | Some i \<Rightarrow> filter (\<lambda>(j, d, cb). j \<noteq> i) (idle_timers s))"
  by (cases k) (auto simp: idle_timers_def clearTimeout_def intro: filter_cong)

lemma idle_timer_ok_clearTimeout [simp]:
  "idle_timer_ok s \<Longrightarrow> idle_timer_ok (clearTimeout k s)"
  by (cases k) (auto simp: idle_timer_ok_cases idle_timers_clearTimeout split: if_splits)

lemma idle_timers_cleared:
  "idle_timer_ok s \<Longrightarrow> idle_timers (clearTimeout (idleTimerId s) s) = []"
  by (auto simp: idle_timer_ok_cases idle_timers_clearTimeout split: option.splits)

lemma idle_timers_setTimeout:
  "idle_timers (snd (setTimeout cb t s)) =
     idle_timers s @ (if cb = CbIdleStop then [(nextTimerId s, t, cb)] else [])"
  by (simp add: idle_timers_def)

lemma idle_timer_ok_setTimeout [simp]:
  "cb \<noteq> CbIdleStop \<Longrightarrow> idle_timer_ok s \<Longrightarrow> idle_timer_ok (snd (setTimeout cb t s))"
  by (simp add: idle_timer_ok_cases idle_timers_setTimeout)

lemma idle_timer_ok_emit [simp]: "idle_timer_ok (emit e s) = idle_timer_ok s"
  by (simp add: emit_def)

lemma idle_timer_ok_fadeTo [simp]: "idle_timer_ok (fadeTo l s) = idle_timer_ok s"
  by (simp add: fadeTo_def)

lemma idle_timer_ok_transition [simp]: "idle_timer_ok (transition sm s) = idle_timer_ok s"
  by (simp add: transition_def)

lemma idle_timers_state_update [simp]: "idle_timers (s\<lparr>state := st\<rparr>) = idle_timers s"
  by (simp add: idle_timers_def)

lemma idle_timers_updateApplicationState [simp]:
  "idle_timers (updateApplicationState s) = idle_timers s"
  by (simp add: idle_timers_def)

text \<open>The idle timers after a completed state change.\<close>

lemma idle_timers_setState_now:
  assumes "idle_timer_ok s"
  shows "idle_timers (setState st False None s) =
           (case IDLE_TIMEOUT st of
              None \<Rightarrow> []
            | Some d \<Rightarrow> [(nextTimerId s, d, CbIdleStop)])"
    and "idle_timer_ok (setState st False None s)"
proof -
  define s1 where "s1 = updateApplicationState ((clearTimeout (delay s) s)\<lparr>state := st\<rparr>)"
  have ok1: "idle_timer_ok (clearTimeout (delay s) s)"
    using assms by simp
  have id1: "idleTimerId s1 = idleTimerId s" by (simp add: s1_def)
  have "idle_timers (clearTimeout (idleTimerId s) (clearTimeout (delay s) s)) = []"
    using idle_timers_cleared[OF ok1] by simp
  then have cl: "idle_timers (clearTimeout (idleTimerId s1) s1) = []"
    by (simp add: id1 idle_timers_clearTimeout s1_def split: option.splits)
  have nx: "nextTimerId s1 = nextTimerId s" by (simp add: s1_def)
  have st1: "state s1 = st" by (simp add: s1_def)
  have eq: "setState st False None s = setIdleTimeout (IDLE_TIMEOUT st) s1"
    by (simp add: setState_now s1_def)
  have nz: "IDLE_TIMEOUT st \<noteq> Some 0" by (cases st) simp_all
  have idt: "idleTimerId (setState st False None s) = Some (nextTimerId s)"
    if "IDLE_TIMEOUT st = Some d" for d
    unfolding eq using that nz nx by (auto simp: setIdleTimeout_def Let_def split_beta)
  show its: "idle_timers (setState st False None s) =
           (case IDLE_TIMEOUT st of
              None \<Rightarrow> []
            | Some d \<Rightarrow> [(nextTimerId s, d, CbIdleStop)])"
    unfolding eq using cl nz nx
    by (auto simp: setIdleTimeout_def Let_def split_beta idle_timers_setTimeout
        idle_timers_def split: option.splits)
  show "idle_timer_ok (setState st False None s)"
  proof (cases "IDLE_TIMEOUT st")
    case None
    with its show ?thesis by (simp add: idle_timer_ok_def)
  next
    case (Some d)
    with its idt[OF Some] show ?thesis by (simp add: idle_timer_ok_def)
  qed
qed

lemma idle_timer_ok_setState [simp]:
  assumes "idle_timer_ok s"
  shows "idle_timer_ok (setState st cf d s)"
proof (cases "d \<noteq> None \<and> d \<noteq> Some 0")
  case True
  with assms show ?thesis
    by (simp add: setState_def Let_def split_beta)
next
  case False
  show ?thesis
  proof (cases cf)
    case True
    with False assms show ?thesis
      by (auto simp: setState_def Let_def)
  next
    case cf: False
    have "setState st cf d s = setState st False None s"
      using False cf by (auto simp: setState_def Let_def)
    with idle_timers_setState_now(2)[OF assms] show ?thesis by simp
  qed
qed

lemma idle_timer_ok_cancelPlayerAutoPlay [simp]:
  "idle_timer_ok s \<Longrightarrow> idle_timer_ok (cancelPlayerAutoPlay s)"
  by (simp add: cancelPlayerAutoPlay_def)

lemma idle_timer_ok_doPlayerAutoPlay [simp]:
  "idle_timer_ok s \<Longrightarrow> idle_timer_ok (doPlayerAutoPlay s)"
  by (simp add: doPlayerAutoPlay_def Let_def split_beta)

lemma idle_timer_ok_mediaInfoElapsed [simp]:
  "idle_timer_ok s \<Longrightarrow> idle_timer_ok (mediaInfoElapsed d s)"
  by (simp add: mediaInfoElapsed_def)

lemma idle_timer_ok_onLoadSuccess [simp]:
  "idle_timer_ok s \<Longrightarrow> idle_timer_ok (onLoadSuccess s)"
  by (simp add: onLoadSuccess_def Let_def)

lemma idle_timer_ok_resetMediaElement [simp]:
  "idle_timer_ok (resetMediaElement s) = idle_timer_ok s"
  by (simp add: resetMediaElement_def split: option.splits)

lemma idle_timer_ok_setType [simp]: "idle_timer_ok (setType ty l s) = idle_timer_ok s"
  by (simp add: setType_def)

lemma idle_timer_ok_loadVideo [simp]: "idle_timer_ok (loadVideo pn info s) = idle_timer_ok s"
  by (simp add: loadVideo_def Let_def split: option.splits)

lemma idle_timer_ok_preload [simp]: "idle_timer_ok (preload m s) = idle_timer_ok s"
  by (simp add: preload_def doneFunc_def Let_def)

lemma idle_timer_ok_onError [simp]: "idle_timer_ok (onError e s) = idle_timer_ok s"
  by (simp add: onError_def)

lemma idle_timer_ok_onLoadMetadataError [simp]:
  "idle_timer_ok (onLoadMetadataError info s) = idle_timer_ok s"
  by (simp add: onLoadMetadataError_def)

lemma idle_timer_ok_load [simp]:
  "idle_timer_ok s \<Longrightarrow> idle_timer_ok (load pn info s)"
  by (simp add: load_def Let_def split: Type.splits)

lemma idle_timer_ok_onBuffering [simp]:
  "idle_timer_ok s \<Longrightarrow> idle_timer_ok (onBuffering s)"
  by (simp add: onBuffering_def)

lemma idle_timer_ok_onBuffering_pow:
  "idle_timer_ok s \<Longrightarrow> idle_timer_ok ((onBuffering ^^ n) s)"
  by (induction n) simp_all

lemma idle_timer_ok_run_something [simp]:
  "idle_timer_ok s \<Longrightarrow> idle_timer_ok (run_something sm s)"
  by (cases sm) simp_all

lemma idle_timer_ok_run_listener [simp]:
  "idle_timer_ok s \<Longrightarrow> idle_timer_ok (run_listener l s)"
  by (cases l) simp_all

lemma idle_timer_ok_fold_listeners:
  "idle_timer_ok s \<Longrightarrow> idle_timer_ok (fold run_listener ls s)"
  by (induction ls arbitrary: s) simp_all

lemma idle_timer_ok_transitionEnd [simp]:
  "idle_timer_ok s \<Longrightarrow> idle_timer_ok (transitionEnd s)"
  by (simp add: transitionEnd_def idle_timer_ok_fold_listeners)

lemma idle_timer_ok_run_callback [simp]:
  "idle_timer_ok s \<Longrightarrow> idle_timer_ok (run_callback cb s)"
  by (cases cb) simp_all

lemma idle_timer_ok_fireTimer [simp]:
  "idle_timer_ok s \<Longrightarrow> idle_timer_ok (fireTimer i s)"
  by (simp add: fireTimer_def split: option.splits)

lemma idle_timer_ok_imageLoaded [simp]:
  "idle_timer_ok s \<Longrightarrow> idle_timer_ok (imageLoaded k s)"
  by (simp add: imageLoaded_def doneFunc_def)

lemma idle_timer_ok_step:
  "idle_timer_ok s \<Longrightarrow> idle_timer_ok (step pn ev s)"
proof (cases ev)
  case Pause
  assume "idle_timer_ok s"
  then show ?thesis
    using Pause by (simp add: onPause_def Let_def)
next
  case Seeked
  assume "idle_timer_ok s"
  then show ?thesis
    using Seeked by (simp add: onSeekEnd_def Let_def split_beta)
qed (simp_all add: onReady_def onSenderDisconnected_def onVisibilityChanged_def onLoad_def
      onStop_def hostOnError_def onPlaying_def onEnded_def onProgress_def onSeekStart_def
      idle_timer_ok_onBuffering_pow Let_def split: option.splits)

lemma idle_timer_ok_run:
  "idle_timer_ok s \<Longrightarrow> idle_timer_ok (run pn evs s)"
  by (induction evs arbitrary: s) (simp_all add: idle_timer_ok_step)

lemma idle_timer_ok_newCastPlayer: "idle_timer_ok newCastPlayer"
  by (simp add: newCastPlayer_def blank_def setType_def setState_def setIdleTimeout_def
      setTimeout_def clearTimeout_def updateApplicationState_def emit_def Let_def
      idle_timer_ok_def idle_timers_def)

lemma expected_idle_delays_eq:
  "expected_idle_delays st = (case IDLE_TIMEOUT st of None \<Rightarrow> [] | Some d \<Rightarrow> [d])"
  by (cases st) (simp_all add: expected_idle_delays_def)

text \<open>
  C2. After every sequence of events on a new player at most one idle timer is pending,
  and a pending one has the delay of the current state. Every completed state change
  leaves exactly the idle timer of the new state: 5 minutes for \<open>LAUNCHING\<close>,
  \<open>LOADING\<close>, \<open>DONE\<close> and \<open>IDLE\<close>, 20 minutes for \<open>PAUSED\<close>, 30 seconds for
  \<open>STALLED\<close>, and none for \<open>BUFFERING\<close> and \<open>PLAYING\<close>.
\<close>

theorem one_idle_timer:
  "length (idle_timers (run pn evs newCastPlayer)) \<le> 1 \<and>
   (idle_timers (run pn evs newCastPlayer) = [] \<or>
    map (\<lambda>(i, d, cb). d) (idle_timers (run pn evs newCastPlayer)) =
      expected_idle_delays (state (run pn evs newCastPlayer))) \<and>
   map (\<lambda>(i, d, cb). d) (idle_timers (setState st False None (run pn evs newCastPlayer))) =
     expected_idle_delays st \<and>
   expected_idle_delays st =
     (if st \<in> {LAUNCHING, LOADING, DONE, IDLE} then [300000]
      else if st = PAUSED then [1200000]
      else if st = STALLED then [30000]
      else [])"
proof -
  have ok: "idle_timer_ok (run pn evs newCastPlayer)"
    using idle_timer_ok_newCastPlayer by (rule idle_timer_ok_run)
  have a: "length (idle_timers (run pn evs newCastPlayer)) \<le> 1"
    using ok by (auto simp: idle_timer_ok_cases)
  have b: "idle_timers (run pn evs newCastPlayer) = [] \<or>
    map (\<lambda>(i, d, cb). d) (idle_timers (run pn evs newCastPlayer)) =
      expected_idle_delays (state (run pn evs newCastPlayer))"
    using ok by (auto simp: idle_timer_ok_cases expected_idle_delays_eq)
  have c: "map (\<lambda>(i, d, cb). d) (idle_timers (setState st False None (run pn evs newCastPlayer))) =
     expected_idle_delays st"
    by (simp add: idle_timers_setState_now(1)[OF ok] expected_idle_delays_eq split: option.splits)
  have d: "expected_idle_delays st =
     (if st \<in> {LAUNCHING, LOADING, DONE, IDLE} then [300000]
      else if st = PAUSED then [1200000]
      else if st = STALLED then [30000]
      else [])"
    by (simp add: expected_idle_delays_def)
  from a b c d show ?thesis by blast
qed

section \<open>Timer identifiers are fresh\<close>

text \<open>
  The hypothesis \<open>timers_fresh\<close> of the auto-play theorem holds after every sequence of
  events on a new player.
\<close>

lemma timers_fresh_updates [simp]:
  "timers_fresh (type_update f0 s) = timers_fresh s"
  "timers_fresh (live_update f1 s) = timers_fresh s"
  "timers_fresh (state_update f2 s) = timers_fresh s"
  "timers_fresh (idleTimerId_update f3 s) = timers_fresh s"
  "timers_fresh (delay_update f4 s) = timers_fresh s"
  "timers_fresh (playerAutoPlay_update f5 s) = timers_fresh s"
  "timers_fresh (playerAutoPlayTimerId_update f6 s) = timers_fresh s"
  "timers_fresh (seekingTimeoutId_update f7 s) = timers_fresh s"
  "timers_fresh (player_update f8 s) = timers_fresh s"
  "timers_fresh (applicationState_update f9 s) = timers_fresh s"
  "timers_fresh (hasMediaManager_update f10 s) = timers_fresh s"
  "timers_fresh (mediaElement_update f11 s) = timers_fresh s"
  "timers_fresh (mediaInformation_update f12 s) = timers_fresh s"
  "timers_fresh (senders_update f13 s) = timers_fresh s"
  "timers_fresh (stalledListeners_update f14 s) = timers_fresh s"
  "timers_fresh (waitingListeners_update f15 s) = timers_fresh s"
  "timers_fresh (fadeListeners_update f16 s) = timers_fresh s"
  "timers_fresh (imagesLoading_update f17 s) = timers_fresh s"
  "timers_fresh (effects_update f18 s) = timers_fresh s"
  by (simp_all add: timers_fresh_def)

lemma timers_fresh_clearTimeout [simp]:
  "timers_fresh s \<Longrightarrow> timers_fresh (clearTimeout k s)"
  by (cases k) (auto simp: timers_fresh_def clearTimeout_def list_all_iff)

lemma timers_fresh_setTimeout [simp]:
  "timers_fresh s \<Longrightarrow> timers_fresh (snd (setTimeout cb t s))"
  by (auto simp: timers_fresh_def setTimeout_def Let_def list_all_iff)

lemma timers_fresh_emit [simp]: "timers_fresh (emit e s) = timers_fresh s"
  by (simp add: emit_def)

lemma timers_fresh_fadeTo [simp]: "timers_fresh (fadeTo l s) = timers_fresh s"
  by (simp add: fadeTo_def)

lemma timers_fresh_transition [simp]: "timers_fresh (transition sm s) = timers_fresh s"
  by (simp add: transition_def)

lemma timers_fresh_updateApplicationState [simp]:
  "timers_fresh (updateApplicationState s) = timers_fresh s"
  by (simp add: updateApplicationState_def Let_def)

lemma timers_fresh_setIdleTimeout [simp]:
  "timers_fresh s \<Longrightarrow> timers_fresh (setIdleTimeout t s)"
  by (simp add: setIdleTimeout_def Let_def split_beta split: option.splits)

lemma timers_fresh_setState [simp]:
  "timers_fresh s \<Longrightarrow> timers_fresh (setState st cf d s)"
  by (simp add: setState_def Let_def split_beta)

lemma timers_fresh_cancelPlayerAutoPlay [simp]:
  "timers_fresh s \<Longrightarrow> timers_fresh (cancelPlayerAutoPlay s)"
  by (simp add: cancelPlayerAutoPlay_def)

lemma timers_fresh_doPlayerAutoPlay [simp]:
  "timers_fresh s \<Longrightarrow> timers_fresh (doPlayerAutoPlay s)"
  by (simp add: doPlayerAutoPlay_def Let_def split_beta)

lemma timers_fresh_load [simp]:
  "timers_fresh s \<Longrightarrow> timers_fresh (load pn info s)"
  by (simp add: load_def Let_def onLoadMetadataError_def resetMediaElement_def setType_def
      loadVideo_def preload_def doneFunc_def split: Type.splits option.splits)

lemma timers_fresh_onBuffering_pow:
  "timers_fresh s \<Longrightarrow> timers_fresh ((onBuffering ^^ n) s)"
  by (induction n) (simp_all add: onBuffering_def)

lemma timers_fresh_run_something [simp]:
  "timers_fresh s \<Longrightarrow> timers_fresh (run_something sm s)"
  by (cases sm) simp_all

lemma timers_fresh_fold_listeners:
  "timers_fresh s \<Longrightarrow> timers_fresh (fold run_listener ls s)"
proof (induction ls arbitrary: s)
  case Nil
  then show ?case by simp
next
  case (Cons l ls)
  then show ?case by (cases l) simp_all
qed

lemma timers_fresh_run_callback [simp]:
  "timers_fresh s \<Longrightarrow> timers_fresh (run_callback cb s)"
  by (cases cb) (simp_all add: mediaInfoElapsed_def)

lemma timers_fresh_step:
  "timers_fresh s \<Longrightarrow> timers_fresh (step pn ev s)"
  by (cases ev)
    (simp_all add: onReady_def onSenderDisconnected_def onVisibilityChanged_def onLoad_def
      onStop_def onError_def onLoadMetadataError_def hostOnError_def onPlaying_def onPause_def
      onEnded_def onProgress_def onSeekStart_def onSeekEnd_def onLoadSuccess_def
      timers_fresh_onBuffering_pow fireTimer_def transitionEnd_def timers_fresh_fold_listeners
      imageLoaded_def doneFunc_def Let_def split_beta split: option.splits)

lemma timers_fresh_run:
  "timers_fresh s \<Longrightarrow> timers_fresh (run pn evs s)"
  by (induction evs arbitrary: s) (simp_all add: timers_fresh_step)

lemma timers_fresh_newCastPlayer: "timers_fresh newCastPlayer"
  by (simp add: newCastPlayer_def blank_def setType_def setState_def setIdleTimeout_def
      setTimeout_def clearTimeout_def updateApplicationState_def emit_def Let_def
      timers_fresh_def)

lemma timers_fresh_reachable: "timers_fresh (run pn evs newCastPlayer)"
  using timers_fresh_newCastPlayer by (rule timers_fresh_run)

end
